theory Spec2Isabelle
  imports Complex_Main
begin

section \<open>The contagion simulation of model.py\<close>

text \<open>
  The model follows model.py class by class. Python's unbounded ints are \<open>int\<close>.
  Python's floats are taken as exact reals: coordinates, speeds and random draws are
  \<open>real\<close>, \<open>math.sqrt\<close>, \<open>cos\<close>, \<open>sin\<close> and \<open>pi\<close> are the real functions.
  Objects mutated in place become values that are passed and returned; the population
  is a list of cells, and a cell met through an index is written back at that index.
\<close>

subsection \<open>The constants module\<close>

text \<open>
  model.py reads ten names of the module \<open>constants\<close>, which it imports. Their values
  are a parameter of every function below: a record with one field for each name
  that model.py uses.
\<close>

record constants =
  VULNERABLE :: int
  INFECTED :: int
  IMMUNE :: int
  RECOVERY_PERIOD :: int
  BOUNDS_WIDTH :: real
  MAX_X :: real
  MAX_Y :: real
  MIN_X :: real
  MIN_Y :: real
  CELL_RADIUS :: real

text \<open>
  The encoding of the three statuses in one integer is sound when the two sentinels
  differ and lie below the infected threshold, and when a vulnerable cell is not
  past the recovery period.
\<close>

definition sentinels_ok :: "constants \<Rightarrow> bool" where
  "sentinels_ok c \<longleftrightarrow>
     VULNERABLE c \<noteq> IMMUNE c \<and> VULNERABLE c < INFECTED c \<and> IMMUNE c < INFECTED c
     \<and> VULNERABLE c \<le> RECOVERY_PERIOD c"

text \<open>The box is not empty.\<close>

definition bounds_ok :: "constants \<Rightarrow> bool" where
  "bounds_ok c \<longleftrightarrow> MIN_X c \<le> MAX_X c \<and> MIN_Y c \<le> MAX_Y c"

text \<open>
  The box is centred at the origin and at least \<open>BOUNDS_WIDTH\<close> wide and high:
  \<open>random_location\<close> draws both coordinates from a range of that width.
\<close>

definition spawn_area_ok :: "constants \<Rightarrow> bool" where
  "spawn_area_ok c \<longleftrightarrow>
     0 \<le> BOUNDS_WIDTH c \<and> BOUNDS_WIDTH c \<le> 2 * MAX_X c \<and> BOUNDS_WIDTH c \<le> 2 * MAX_Y c
     \<and> MIN_X c \<le> - MAX_X c \<and> MIN_Y c \<le> - MAX_Y c"

text \<open>A sample configuration, for evaluating the model at concrete inputs.\<close>

definition sample_constants :: constants where
  "sample_constants =
     \<lparr>VULNERABLE = 0, INFECTED = 1, IMMUNE = - 1, RECOVERY_PERIOD = 90,
      BOUNDS_WIDTH = 400, MAX_X = 200, MAX_Y = 200, MIN_X = - 200, MIN_Y = - 200,
      CELL_RADIUS = 15\<rparr>"

subsection \<open>class Point\<close>

record Point =
  x :: real
  y :: real

definition Point_add :: "Point \<Rightarrow> Point \<Rightarrow> Point" where
  "Point_add self other = \<lparr>x = x self + x other, y = y self + y other\<rparr>"

definition Point_distance :: "Point \<Rightarrow> Point \<Rightarrow> real" where
  "Point_distance self point2 = sqrt ((x self - x point2)\<^sup>2 + (y self - y point2)\<^sup>2)"

subsection \<open>class Cell\<close>

record Cell =
  location :: Point
  direction :: Point
  sickness :: int

text \<open>\<open>Cell(location, direction)\<close>: the class attribute gives the first sickness.\<close>

definition Cell_init :: "constants \<Rightarrow> Point \<Rightarrow> Point \<Rightarrow> Cell" where
  "Cell_init c loc dir = \<lparr>location = loc, direction = dir, sickness = VULNERABLE c\<rparr>"

definition contract_disease :: "constants \<Rightarrow> Cell \<Rightarrow> Cell" where
  "contract_disease c self = self\<lparr>sickness := INFECTED c\<rparr>"

definition immunize :: "constants \<Rightarrow> Cell \<Rightarrow> Cell" where
  "immunize c self = self\<lparr>sickness := IMMUNE c\<rparr>"

definition is_vulnerable :: "constants \<Rightarrow> Cell \<Rightarrow> bool" where
  "is_vulnerable c self = (if sickness self = VULNERABLE c then True else False)"

definition is_infected :: "constants \<Rightarrow> Cell \<Rightarrow> bool" where
  "is_infected c self = (if sickness self \<ge> INFECTED c then True else False)"

definition is_immune :: "constants \<Rightarrow> Cell \<Rightarrow> bool" where
  "is_immune c self = (if sickness self = IMMUNE c then True else False)"

definition color :: "constants \<Rightarrow> Cell \<Rightarrow> string" where
  "color c self =
     (if is_vulnerable c self then ''gray''
      else if is_infected c self then ''red''
      else if is_immune c self then ''yellow''
      else '''')"

text \<open>\<open>Cell.tick\<close>: move, count one more tick of infection, recover past the period.\<close>

definition Cell_tick :: "constants \<Rightarrow> Cell \<Rightarrow> Cell" where
  "Cell_tick c self =
     (let s1 = self\<lparr>location := Point_add (location self) (direction self)\<rparr>;
          s2 = (if is_infected c s1 then s1\<lparr>sickness := sickness s1 + 1\<rparr> else s1)
      in if sickness s2 > RECOVERY_PERIOD c then immunize c s2 else s2)"

text \<open>\<open>self.contact_with(cell2)\<close> returns both cells as the call leaves them.\<close>

definition contact_with :: "constants \<Rightarrow> Cell \<Rightarrow> Cell \<Rightarrow> Cell \<times> Cell" where
  "contact_with c self cell2 =
     (if is_infected c cell2 \<and> is_vulnerable c self then (contract_disease c self, cell2)
      else if is_infected c self \<and> is_vulnerable c cell2 then (self, contract_disease c cell2)
      else (self, cell2))"

subsection \<open>class Model\<close>

record Model =
  population :: "Cell list"
  time :: int

datatype error = ValueError

text \<open>
  The process-wide random source is the sequence of the draws still to come;
  \<open>random()\<close> returns the first and leaves the rest.
\<close>

type_synonym draws = "nat \<Rightarrow> real"

definition py_random :: "draws \<Rightarrow> real \<times> draws" where
  "py_random s = (s 0, \<lambda>n. s (Suc n))"

definition random_location :: "constants \<Rightarrow> draws \<Rightarrow> Point \<times> draws" where
  "random_location c s =
     (let (r1, s1) = py_random s;
          start_x = r1 * BOUNDS_WIDTH c - MAX_X c;
          (r2, s2) = py_random s1;
          start_y = r2 * BOUNDS_WIDTH c - MAX_Y c
      in (\<lparr>x = start_x, y = start_y\<rparr>, s2))"

definition random_direction :: "real \<Rightarrow> draws \<Rightarrow> Point \<times> draws" where
  "random_direction speed s =
     (let (r, s1) = py_random s;
          random_angle = 2 * pi * r;
          direction_x = cos random_angle * speed;
          direction_y = sin random_angle * speed
      in (\<lparr>x = direction_x, y = direction_y\<rparr>, s1))"

text \<open>
  The three loops of \<open>Model.__init__\<close> have one body, up to what is done to the new
  cell before it is appended (\<open>immunize\<close>, \<open>contract_disease\<close>, nothing): \<open>mark\<close>.
\<close>

fun spawn :: "constants \<Rightarrow> real \<Rightarrow> (Cell \<Rightarrow> Cell) \<Rightarrow> nat \<Rightarrow> Cell list \<times> draws \<Rightarrow> Cell list \<times> draws" where
  "spawn c speed mark 0 st = st"
| "spawn c speed mark (Suc k) (pop, s) =
     (let (start_location, s1) = random_location c s;
          (start_direction, s2) = random_direction speed s1;
          cell = mark (Cell_init c start_location start_direction)
      in spawn c speed mark k (pop @ [cell], s2))"

definition Model_init :: "constants \<Rightarrow> int \<Rightarrow> real \<Rightarrow> int \<Rightarrow> int \<Rightarrow> draws \<Rightarrow> error + Model" where
  "Model_init c cells speed num_infected num_immune s =
     (if num_infected \<ge> cells \<or> num_infected \<le> 0 \<or> (num_immune + num_infected) > cells
         \<or> num_immune < 0 \<or> num_immune \<ge> cells
      then Inl ValueError
      else
        let st1 = spawn c speed (immunize c) (nat num_immune) ([], s);
            st2 = spawn c speed (contract_disease c) (nat num_infected) st1;
            st3 = spawn c speed (\<lambda>cell. cell) (nat (cells - num_infected - num_immune)) st2
        in Inr \<lparr>population = fst st3, time = 0\<rparr>)"

text \<open>\<open>enforce_bounds\<close>: four tests in the source's order, each on the cell as the last left it.\<close>

definition enforce_bounds :: "constants \<Rightarrow> Cell \<Rightarrow> Cell" where
  "enforce_bounds c cell =
     (let c1 = (if x (location cell) > MAX_X c
                then cell\<lparr>location := (location cell)\<lparr>x := MAX_X c\<rparr>,
                          direction := (direction cell)\<lparr>x := x (direction cell) * (- 1)\<rparr>\<rparr>
                else cell);
          c2 = (if y (location c1) > MAX_Y c
                then c1\<lparr>location := (location c1)\<lparr>y := MAX_Y c\<rparr>,
                        direction := (direction c1)\<lparr>y := y (direction c1) * (- 1)\<rparr>\<rparr>
                else c1);
          c3 = (if y (location c2) < MIN_Y c
                then c2\<lparr>location := (location c2)\<lparr>y := MIN_Y c\<rparr>,
                        direction := (direction c2)\<lparr>y := y (direction c2) * (- 1)\<rparr>\<rparr>
                else c2);
          c4 = (if x (location c3) < MIN_X c
                then c3\<lparr>location := (location c3)\<lparr>x := MIN_X c\<rparr>,
                        direction := (direction c3)\<lparr>x := x (direction c3) * (- 1)\<rparr>\<rparr>
                else c3)
      in c4)"

text \<open>The body of the inner loop of \<open>check_contacts\<close>, on the cells at \<open>i\<close> and \<open>j\<close>.\<close>

definition contact_at :: "constants \<Rightarrow> nat \<Rightarrow> nat \<Rightarrow> Cell list \<Rightarrow> Cell list" where
  "contact_at c i j pop =
     (let cell1 = pop ! i; cell2 = pop ! j
      in if Point_distance (location cell1) (location cell2) < CELL_RADIUS c
         then (let (cell1', cell2') = contact_with c cell1 cell2
               in pop[i := cell1', j := cell2'])
         else pop)"

function check_contacts_inner :: "constants \<Rightarrow> nat \<Rightarrow> nat \<Rightarrow> nat \<Rightarrow> Cell list \<Rightarrow> Cell list" where
  "check_contacts_inner c n i j pop =
     (if j < n then check_contacts_inner c n i (j + 1) (contact_at c i j pop) else pop)"
  by pat_completeness auto
termination
  by (relation "measure (\<lambda>(c, n, i, j, pop). n - j)") auto

declare check_contacts_inner.simps [simp del]

function check_contacts_outer :: "constants \<Rightarrow> nat \<Rightarrow> nat \<Rightarrow> Cell list \<Rightarrow> Cell list" where
  "check_contacts_outer c n i pop =
     (if i < n then check_contacts_outer c n (i + 1) (check_contacts_inner c n i (i + 1) pop)
      else pop)"
  by pat_completeness auto
termination
  by (relation "measure (\<lambda>(c, n, i, pop). n - i)") auto

declare check_contacts_outer.simps [simp del]

definition check_contacts :: "constants \<Rightarrow> Cell list \<Rightarrow> Cell list" where
  "check_contacts c pop = check_contacts_outer c (length pop) 0 pop"

text \<open>The loop of \<open>Model.tick\<close> over the population.\<close>

fun tick_cells :: "constants \<Rightarrow> Cell list \<Rightarrow> Cell list" where
  "tick_cells c [] = []"
| "tick_cells c (cell # cells) = enforce_bounds c (Cell_tick c cell) # tick_cells c cells"

definition Model_tick :: "constants \<Rightarrow> Model \<Rightarrow> Model" where
  "Model_tick c self =
     (let m1 = self\<lparr>time := time self + 1\<rparr>;
          m2 = m1\<lparr>population := tick_cells c (population m1)\<rparr>
      in m2\<lparr>population := check_contacts c (population m2)\<rparr>)"

fun is_complete_loop :: "constants \<Rightarrow> Cell list \<Rightarrow> bool" where
  "is_complete_loop c [] = True"
| "is_complete_loop c (cell # cells) = (if is_infected c cell then False else is_complete_loop c cells)"

definition is_complete :: "constants \<Rightarrow> Model \<Rightarrow> bool" where
  "is_complete c self = is_complete_loop c (population self)"

subsection \<open>Notions used in the properties\<close>

text \<open>What one contact scan can do to a cell: nothing, or infect it if it is vulnerable.\<close>

definition contact_rel :: "constants \<Rightarrow> Cell \<Rightarrow> Cell \<Rightarrow> bool" where
  "contact_rel c a b \<longleftrightarrow> b = a \<or> (is_vulnerable c a \<and> b = contract_disease c a)"

text \<open>The invariant of the sickness level.\<close>

definition level_ok :: "constants \<Rightarrow> Cell \<Rightarrow> bool" where
  "level_ok c cell \<longleftrightarrow>
     sickness cell = VULNERABLE c \<or> sickness cell = IMMUNE c \<or> sickness cell \<ge> INFECTED c"

text \<open>
  The contact scan as the specification words it: every pair \<open>(i, j)\<close> with \<open>i < j\<close>, in
  the order of the two loops; the pairs closer than the contact radius; and one call of
  \<open>contact_with\<close> on the cells of a pair. \<open>check_contacts\<close> is compared with these.
\<close>

definition pairs :: "nat \<Rightarrow> (nat \<times> nat) list" where
  "pairs n = concat (map (\<lambda>i. map (\<lambda>j. (i, j)) [i + 1..<n]) [0..<n])"

definition in_range :: "constants \<Rightarrow> Cell list \<Rightarrow> nat \<times> nat \<Rightarrow> bool" where
  "in_range c pop p \<longleftrightarrow>
     Point_distance (location (pop ! fst p)) (location (pop ! snd p)) < CELL_RADIUS c"

definition contact_pair :: "constants \<Rightarrow> nat \<times> nat \<Rightarrow> Cell list \<Rightarrow> Cell list" where
  "contact_pair c p pop =
     (let (cell1', cell2') = contact_with c (pop ! fst p) (pop ! snd p)
      in pop[fst p := cell1', snd p := cell2'])"

text \<open>The cell that the draws \<open>3k\<close>, \<open>3k + 1\<close> and \<open>3k + 2\<close> make, before it is marked.\<close>

definition drawn_cell :: "constants \<Rightarrow> real \<Rightarrow> draws \<Rightarrow> nat \<Rightarrow> Cell" where
  "drawn_cell c speed s k =
     Cell_init c
       \<lparr>x = s (3 * k) * BOUNDS_WIDTH c - MAX_X c, y = s (3 * k + 1) * BOUNDS_WIDTH c - MAX_Y c\<rparr>
       \<lparr>x = cos (2 * pi * s (3 * k + 2)) * speed, y = sin (2 * pi * s (3 * k + 2)) * speed\<rparr>"

subsection \<open>Sample inputs\<close>

text \<open>
  Draws that put three cells on a line, ten apart, at speed 0: the constructor, asked
  for three cells of which one is infected, returns \<open>sample_model\<close> (lemma
  \<open>sample_model_init\<close>).
\<close>

definition sample_draws :: draws where
  "sample_draws n = (if n = 3 then 1 / 40 else if n = 6 then 1 / 20 else 0)"

definition sample_cell :: "real \<Rightarrow> int \<Rightarrow> Cell" where
  "sample_cell px v = \<lparr>location = \<lparr>x = px, y = - 200\<rparr>, direction = \<lparr>x = 0, y = 0\<rparr>, sickness = v\<rparr>"

definition sample_model :: Model where
  "sample_model =
     \<lparr>population = [sample_cell (- 200) 1, sample_cell (- 190) 0, sample_cell (- 180) 0], time = 0\<rparr>"

text \<open>Draws that put the three cells five apart: each is in range of the other two.\<close>

definition close_draws :: draws where
  "close_draws n = (if n = 3 then 1 / 80 else if n = 6 then 1 / 40 else 0)"

definition close_model :: Model where
  "close_model =
     \<lparr>population = [sample_cell (- 200) 1, sample_cell (- 195) 0, sample_cell (- 190) 0], time = 0\<rparr>"

section \<open>Properties\<close>

subsection \<open>The contact scan changes a cell only by infecting it\<close>

lemma contact_with_fst_cases:
  "fst (contact_with c a b) = a \<or> (is_vulnerable c a \<and> is_infected c b \<and> fst (contact_with c a b) = contract_disease c a)"
  by (simp add: contact_with_def)

lemma contact_with_snd_cases:
  "snd (contact_with c a b) = b \<or> (is_vulnerable c b \<and> is_infected c a \<and> snd (contact_with c a b) = contract_disease c b)"
  by (simp add: contact_with_def)


lemma contact_rel_refl: "contact_rel c a a"
  by (simp add: contact_rel_def)

lemma contact_rel_trans: "contact_rel c a b \<Longrightarrow> contact_rel c b d \<Longrightarrow> contact_rel c a d"
  by (auto simp: contact_rel_def contract_disease_def is_vulnerable_def)

lemma contact_at_length: "length (contact_at c i j pop) = length pop"
  by (simp add: contact_at_def Let_def split: prod.split)

lemma contact_at_rel:
  assumes "k < length pop"
  shows "contact_rel c (pop ! k) (contact_at c i j pop ! k)"
proof -
  obtain a b where ab: "contact_with c (pop ! i) (pop ! j) = (a, b)"
    by (cases "contact_with c (pop ! i) (pop ! j)")
  have a: "contact_rel c (pop ! i) a"
    using contact_with_fst_cases [of c "pop ! i" "pop ! j"] ab by (auto simp: contact_rel_def)
  have b: "contact_rel c (pop ! j) b"
    using contact_with_snd_cases [of c "pop ! i" "pop ! j"] ab by (auto simp: contact_rel_def)
  have "contact_rel c (pop ! k) (pop[i := a, j := b] ! k)"
  proof (cases "k = j")
    case True
    then show ?thesis using assms b by simp
  next
    case False
    then show ?thesis using assms a by (cases "k = i") (simp_all add: contact_rel_refl)
  qed
  then show ?thesis
    using ab by (simp add: contact_at_def Let_def contact_rel_refl)
qed

lemma inner_length: "length (check_contacts_inner c n i j pop) = length pop"
proof (induction c n i j pop rule: check_contacts_inner.induct)
  case (1 c n i j pop)
  then show ?case
    by (subst check_contacts_inner.simps) (simp add: contact_at_length)
qed

lemma inner_rel:
  "k < length pop \<Longrightarrow> contact_rel c (pop ! k) (check_contacts_inner c n i j pop ! k)"
proof (induction c n i j pop rule: check_contacts_inner.induct)
  case (1 c n i j pop)
  show ?case
  proof (cases "j < n")
    case True
    have "contact_rel c (contact_at c i j pop ! k) (check_contacts_inner c n i (j + 1) (contact_at c i j pop) ! k)"
      using 1 True by (simp add: contact_at_length)
    with contact_at_rel [OF "1.prems", of c i j] show ?thesis
      using True by (subst check_contacts_inner.simps) (auto intro: contact_rel_trans)
  next
    case False
    then show ?thesis by (subst check_contacts_inner.simps) (simp add: contact_rel_refl)
  qed
qed

lemma outer_length: "length (check_contacts_outer c n i pop) = length pop"
proof (induction c n i pop rule: check_contacts_outer.induct)
  case (1 c n i pop)
  then show ?case
    by (subst check_contacts_outer.simps) (simp add: inner_length)
qed

lemma outer_rel:
  "k < length pop \<Longrightarrow> contact_rel c (pop ! k) (check_contacts_outer c n i pop ! k)"
proof (induction c n i pop rule: check_contacts_outer.induct)
  case (1 c n i pop)
  show ?case
  proof (cases "i < n")
    case True
    have "contact_rel c (check_contacts_inner c n i (i + 1) pop ! k)
            (check_contacts_outer c n (i + 1) (check_contacts_inner c n i (i + 1) pop) ! k)"
      using 1 True by (simp add: inner_length)
    with inner_rel [OF "1.prems", of c n i "i + 1"] show ?thesis
      using True by (subst check_contacts_outer.simps) (auto intro: contact_rel_trans)
  next
    case False
    then show ?thesis by (subst check_contacts_outer.simps) (simp add: contact_rel_refl)
  qed
qed

lemma check_contacts_length: "length (check_contacts c pop) = length pop"
  by (simp add: check_contacts_def outer_length)

lemma check_contacts_rel:
  "k < length pop \<Longrightarrow> contact_rel c (pop ! k) (check_contacts c pop ! k)"
  by (simp add: check_contacts_def outer_rel)


subsection \<open>One tick of the model, and the sickness invariant\<close>

lemma tick_cells_map: "tick_cells c pop = map (\<lambda>cell. enforce_bounds c (Cell_tick c cell)) pop"
  by (induction pop) simp_all

lemma enforce_bounds_sickness: "sickness (enforce_bounds c cell) = sickness cell"
  by (simp add: enforce_bounds_def Let_def)

lemma Cell_tick_sickness:
  "sickness (Cell_tick c cell) =
     (let v = (if sickness cell \<ge> INFECTED c then sickness cell + 1 else sickness cell)
      in if v > RECOVERY_PERIOD c then IMMUNE c else v)"
  by (simp add: Cell_tick_def Let_def is_infected_def immunize_def)

lemma Cell_tick_level_ok: "level_ok c cell \<Longrightarrow> level_ok c (Cell_tick c cell)"
  by (auto simp: level_ok_def Cell_tick_sickness Let_def)

lemma contact_rel_level_ok: "contact_rel c a b \<Longrightarrow> level_ok c a \<Longrightarrow> level_ok c b"
  by (auto simp: contact_rel_def level_ok_def contract_disease_def)

lemma check_contacts_level_ok:
  assumes "list_all (level_ok c) pop"
  shows "list_all (level_ok c) (check_contacts c pop)"
  unfolding list_all_length
proof (intro allI impI)
  fix k assume "k < length (check_contacts c pop)"
  then have k: "k < length pop" by (simp add: check_contacts_length)
  with assms have "level_ok c (pop ! k)" by (simp add: list_all_length)
  with check_contacts_rel [OF k, of c] show "level_ok c (check_contacts c pop ! k)"
    by (rule contact_rel_level_ok)
qed

lemma Model_tick_population:
  "population (Model_tick c m) =
     check_contacts c (map (\<lambda>cell. enforce_bounds c (Cell_tick c cell)) (population m))"
  by (simp add: Model_tick_def Let_def tick_cells_map)

lemma Model_tick_time: "time (Model_tick c m) = time m + 1"
  by (simp add: Model_tick_def Let_def)

lemma Model_tick_length: "length (population (Model_tick c m)) = length (population m)"
  by (simp add: Model_tick_population check_contacts_length)

lemma Model_tick_level_ok:
  assumes "list_all (level_ok c) (population m)"
  shows "list_all (level_ok c) (population (Model_tick c m))"
proof -
  have "level_ok c (enforce_bounds c (Cell_tick c cell))" if "level_ok c cell" for cell
    using Cell_tick_level_ok [OF that] by (simp add: level_ok_def enforce_bounds_sickness)
  then have "list_all (level_ok c) (map (\<lambda>cell. enforce_bounds c (Cell_tick c cell)) (population m))"
    using assms by (simp add: list_all_iff)
  then show ?thesis
    unfolding Model_tick_population by (rule check_contacts_level_ok)
qed

lemma ticks_level_ok:
  "list_all (level_ok c) (population m) \<Longrightarrow> list_all (level_ok c) (population ((Model_tick c ^^ n) m))"
  by (induction n) (simp_all add: Model_tick_level_ok)

lemma ticks_length: "length (population ((Model_tick c ^^ n) m)) = length (population m)"
  by (induction n) (simp_all add: Model_tick_length)

lemma ticks_time: "time ((Model_tick c ^^ n) m) = time m + int n"
  by (induction n) (simp_all add: Model_tick_time)

subsection \<open>The constructor\<close>

lemma spawn_sickness:
  assumes "\<And>l d. sickness (mark (Cell_init c l d)) = v"
  shows "map sickness (fst (spawn c speed mark k (pop, s))) = map sickness pop @ replicate k v"
proof (induction k arbitrary: pop s)
  case 0
  then show ?case by simp
next
  case (Suc k)
  show ?case
    by (simp add: Let_def split: prod.split) (simp add: Suc assms replicate_app_Cons_same)
qed

lemma spawn_sickness':
  assumes "\<And>l d. sickness (mark (Cell_init c l d)) = v"
  shows "map sickness (fst (spawn c speed mark k st)) = map sickness (fst st) @ replicate k v"
  using spawn_sickness [where mark = mark and c = c and v = v, OF assms, of speed k "fst st" "snd st"] by simp

lemma Model_init_sickness:
  assumes "Model_init c cells speed num_infected num_immune s = Inr m"
  shows "map sickness (population m) =
           replicate (nat num_immune) (IMMUNE c) @ replicate (nat num_infected) (INFECTED c)
           @ replicate (nat (cells - num_infected - num_immune)) (VULNERABLE c)"
proof -
  have 1: "\<And>l d. sickness (immunize c (Cell_init c l d)) = IMMUNE c"
    by (simp add: immunize_def)
  have 2: "\<And>l d. sickness (contract_disease c (Cell_init c l d)) = INFECTED c"
    by (simp add: contract_disease_def)
  have 3: "\<And>l d. sickness ((\<lambda>cell. cell) (Cell_init c l d)) = VULNERABLE c"
    by (simp add: Cell_init_def)
  show ?thesis
    using assms
    by (auto simp: Model_init_def Let_def
          spawn_sickness' [where mark = "immunize c" and c = c and v = "IMMUNE c", OF 1]
          spawn_sickness' [where mark = "contract_disease c" and c = c and v = "INFECTED c", OF 2]
          spawn_sickness' [where mark = "\<lambda>cell. cell" and c = c and v = "VULNERABLE c", OF 3]
          split: if_splits)
qed

lemma Model_init_level_ok:
  assumes "Model_init c cells speed num_infected num_immune s = Inr m"
  shows "list_all (level_ok c) (population m)"
proof -
  have "\<forall>v \<in> set (map sickness (population m)). v = VULNERABLE c \<or> v = IMMUNE c \<or> v \<ge> INFECTED c"
    unfolding Model_init_sickness [OF assms] by auto
  then show ?thesis by (simp add: list_all_iff level_ok_def)
qed



lemma color_by_sickness:
  "color c cell =
     (if sickness cell = VULNERABLE c then ''gray''
      else if sickness cell \<ge> INFECTED c then ''red''
      else if sickness cell = IMMUNE c then ''yellow'' else '''')"
  by (simp add: color_def is_vulnerable_def is_infected_def is_immune_def)

lemma map_color_by_sickness:
  "map (color c) pop =
     map (\<lambda>v. if v = VULNERABLE c then ''gray''
              else if v \<ge> INFECTED c then ''red''
              else if v = IMMUNE c then ''yellow'' else '''') (map sickness pop)"
  by (simp add: color_by_sickness)

lemma sample_model_init:
  "Model_init sample_constants 3 0 1 0 sample_draws = Inr sample_model"
  by (simp add: Model_init_def Let_def sample_constants_def sample_draws_def sample_model_def
        sample_cell_def random_location_def random_direction_def py_random_def Cell_init_def
        contract_disease_def numeral_eq_Suc)

lemma sample_sentinels_ok: "sentinels_ok sample_constants"
  by (simp add: sentinels_ok_def sample_constants_def)

lemma sample_model_level_ok: "list_all (level_ok sample_constants) (population sample_model)"
  by (simp add: sample_model_def sample_cell_def level_ok_def sample_constants_def)

lemma contact_rel_not_vulnerable: "contact_rel c a b \<Longrightarrow> \<not> is_vulnerable c a \<Longrightarrow> b = a"
  by (auto simp: contact_rel_def)

lemma contact_rel_place:
  "contact_rel c a b \<Longrightarrow> location b = location a \<and> direction b = direction a"
  by (auto simp: contact_rel_def contract_disease_def)

lemma contact_rel_sickness:
  "contact_rel c a b \<Longrightarrow>
     sickness b = sickness a \<or> (sickness a = VULNERABLE c \<and> sickness b = INFECTED c)"
  by (auto simp: contact_rel_def contract_disease_def is_vulnerable_def split: if_splits)

lemma Model_tick_nth:
  assumes "i < length (population m)"
  shows "contact_rel c (enforce_bounds c (Cell_tick c (population m ! i)))
           (population (Model_tick c m) ! i)"
  using check_contacts_rel [of i "map (\<lambda>cell. enforce_bounds c (Cell_tick c cell)) (population m)" c] assms
  by (simp add: Model_tick_population)

text \<open>How one tick of the model moves the sickness level of the cell at an index.\<close>

lemma Model_tick_sickness:
  assumes "i < length (population m)"
  shows "sickness (population (Model_tick c m) ! i) = sickness (Cell_tick c (population m ! i))
         \<or> (sickness (Cell_tick c (population m ! i)) = VULNERABLE c
             \<and> sickness (population (Model_tick c m) ! i) = INFECTED c)"
  using contact_rel_sickness [OF Model_tick_nth [OF assms, of c]]
  by (simp add: enforce_bounds_sickness)

lemma immune_step:
  assumes "sentinels_ok c" "i < length (population m)" "sickness (population m ! i) = IMMUNE c"
  shows "sickness (population (Model_tick c m) ! i) = IMMUNE c"
  using Model_tick_sickness [OF assms(2), of c] assms(1,3)
  by (auto simp: Cell_tick_sickness Let_def sentinels_ok_def split: if_splits)

lemma infected_step:
  assumes "sentinels_ok c" "i < length (population m)" "sickness (population m ! i) \<ge> INFECTED c"
  shows "sickness (population (Model_tick c m) ! i) =
           (if sickness (population m ! i) + 1 > RECOVERY_PERIOD c then IMMUNE c
            else sickness (population m ! i) + 1)"
  using Model_tick_sickness [OF assms(2), of c] assms(1,3)
  by (auto simp: Cell_tick_sickness Let_def sentinels_ok_def split: if_splits)

lemma vulnerable_step:
  assumes "sentinels_ok c" "i < length (population m)" "sickness (population m ! i) = VULNERABLE c"
  shows "sickness (Cell_tick c (population m ! i)) = VULNERABLE c
         \<and> (sickness (population (Model_tick c m) ! i) = VULNERABLE c
            \<or> sickness (population (Model_tick c m) ! i) = INFECTED c)"
  using Model_tick_sickness [OF assms(2), of c] assms(1,3)
  by (auto simp: Cell_tick_sickness Let_def sentinels_ok_def split: if_splits)

lemma immune_ticks:
  assumes "sentinels_ok c" "i < length (population m)" "sickness (population m ! i) = IMMUNE c"
  shows "sickness (population ((Model_tick c ^^ k) m) ! i) = IMMUNE c"
proof (induction k)
  case 0
  then show ?case using assms by simp
next
  case (Suc k)
  then show ?case
    using immune_step [OF assms(1), of i "(Model_tick c ^^ k) m"] assms(2)
    by (simp add: ticks_length)
qed

lemma resolved_ticks:
  assumes "sentinels_ok c" "i < length (population m)"
    "sickness (population m ! i) \<ge> INFECTED c \<or> sickness (population m ! i) = IMMUNE c"
  shows "sickness (population ((Model_tick c ^^ k) m) ! i) \<ge> INFECTED c
         \<or> sickness (population ((Model_tick c ^^ k) m) ! i) = IMMUNE c"
proof (induction k)
  case 0
  then show ?case using assms by simp
next
  case (Suc k)
  have len: "i < length (population ((Model_tick c ^^ k) m))"
    using assms(2) by (simp add: ticks_length)
  from Suc show ?case
  proof
    assume inf: "INFECTED c \<le> sickness (population ((Model_tick c ^^ k) m) ! i)"
    from infected_step [OF assms(1) len inf] inf show ?thesis by (simp split: if_splits)
  next
    assume "sickness (population ((Model_tick c ^^ k) m) ! i) = IMMUNE c"
    from immune_step [OF assms(1) len this] show ?thesis by simp
  qed
qed

text \<open>The counter of an infected cell, tick after tick, and the tick of its recovery.\<close>

lemma infected_ticks:
  assumes "sentinels_ok c" "i < length (population m)" "sickness (population m ! i) = INFECTED c"
    "int k \<le> RECOVERY_PERIOD c - INFECTED c"
  shows "sickness (population ((Model_tick c ^^ k) m) ! i) = INFECTED c + int k"
  using assms(4)
proof (induction k)
  case 0
  then show ?case using assms(3) by simp
next
  case (Suc k)
  have len: "i < length (population ((Model_tick c ^^ k) m))"
    using assms(2) by (simp add: ticks_length)
  have prev: "sickness (population ((Model_tick c ^^ k) m) ! i) = INFECTED c + int k"
    using Suc by simp
  then have "INFECTED c \<le> sickness (population ((Model_tick c ^^ k) m) ! i)" by simp
  from infected_step [OF assms(1) len this] prev Suc.prems show ?case by simp
qed

lemma recovery_tick:
  assumes "sentinels_ok c" "i < length (population m)" "sickness (population m ! i) = INFECTED c"
    "INFECTED c \<le> RECOVERY_PERIOD c"
  shows "sickness (population ((Model_tick c ^^ (nat (RECOVERY_PERIOD c - INFECTED c) + 1)) m) ! i)
           = IMMUNE c"
proof -
  let ?k = "nat (RECOVERY_PERIOD c - INFECTED c)"
  have len: "i < length (population ((Model_tick c ^^ ?k) m))"
    using assms(2) by (simp add: ticks_length)
  have prev: "sickness (population ((Model_tick c ^^ ?k) m) ! i) = INFECTED c + int ?k"
    using assms by (intro infected_ticks) simp_all
  then have "INFECTED c \<le> sickness (population ((Model_tick c ^^ ?k) m) ! i)" by simp
  from infected_step [OF assms(1) len this] prev assms(4) show ?thesis by simp
qed

lemma status_by_sickness:
  assumes "sentinels_ok c"
  shows "is_vulnerable c cell \<longleftrightarrow> sickness cell = VULNERABLE c"
    and "is_infected c cell \<longleftrightarrow> sickness cell \<ge> INFECTED c"
    and "is_immune c cell \<longleftrightarrow> sickness cell = IMMUNE c"
    and "color c cell = ''gray'' \<longleftrightarrow> sickness cell = VULNERABLE c"
    and "color c cell = ''red'' \<longleftrightarrow> sickness cell \<ge> INFECTED c"
    and "color c cell = ''yellow'' \<longleftrightarrow> sickness cell = IMMUNE c"
  using assms
  by (auto simp: color_by_sickness is_vulnerable_def is_infected_def is_immune_def sentinels_ok_def)

lemma ticks_add:
  "(Model_tick c ^^ (n + k)) m = (Model_tick c ^^ k) ((Model_tick c ^^ n) m)"
  by (simp add: funpow_add add.commute [of n k])

lemma sample_fields:
  "VULNERABLE sample_constants = 0" "INFECTED sample_constants = 1"
  "IMMUNE sample_constants = - 1" "RECOVERY_PERIOD sample_constants = 90"
  "BOUNDS_WIDTH sample_constants = 400" "MAX_X sample_constants = 200"
  "MAX_Y sample_constants = 200" "MIN_X sample_constants = - 200"
  "MIN_Y sample_constants = - 200" "CELL_RADIUS sample_constants = 15"
  by (simp_all add: sample_constants_def)

lemma sample_model_history:
  "sickness (population ((Model_tick sample_constants ^^ 89) sample_model) ! 0) = 90"
  "sickness (population ((Model_tick sample_constants ^^ 90) sample_model) ! 0) = - 1"
proof -
  have i: "0 < length (population sample_model)"
    by (simp add: sample_model_def)
  have s: "sickness (population sample_model ! 0) = INFECTED sample_constants"
    by (simp add: sample_model_def sample_cell_def sample_fields)
  have "int 89 \<le> RECOVERY_PERIOD sample_constants - INFECTED sample_constants"
    by (simp add: sample_fields)
  from infected_ticks [OF sample_sentinels_ok i s this]
  show "sickness (population ((Model_tick sample_constants ^^ 89) sample_model) ! 0) = 90"
    by (simp add: sample_fields)
  have "INFECTED sample_constants \<le> RECOVERY_PERIOD sample_constants"
    by (simp add: sample_fields)
  from recovery_tick [OF sample_sentinels_ok i s this]
  show "sickness (population ((Model_tick sample_constants ^^ 90) sample_model) ! 0) = - 1"
    by (simp add: sample_fields)
qed

lemma enforce_bounds_place:
  assumes "bounds_ok c"
  shows "x (location (enforce_bounds c cell)) =
           (if MAX_X c < x (location cell) then MAX_X c
            else if x (location cell) < MIN_X c then MIN_X c else x (location cell))"
    and "x (direction (enforce_bounds c cell)) =
           (if MAX_X c < x (location cell) \<or> x (location cell) < MIN_X c
            then - x (direction cell) else x (direction cell))"
    and "y (location (enforce_bounds c cell)) =
           (if MAX_Y c < y (location cell) then MAX_Y c
            else if y (location cell) < MIN_Y c then MIN_Y c else y (location cell))"
    and "y (direction (enforce_bounds c cell)) =
           (if MAX_Y c < y (location cell) \<or> y (location cell) < MIN_Y c
            then - y (direction cell) else y (direction cell))"
  using assms by (auto simp: enforce_bounds_def Let_def bounds_ok_def)

lemma Cell_tick_place:
  "location (Cell_tick c cell) = Point_add (location cell) (direction cell)"
  "direction (Cell_tick c cell) = direction cell"
  by (simp_all add: Cell_tick_def Let_def immunize_def)

lemma Model_tick_place:
  assumes "i < length (population m)"
  shows "location (population (Model_tick c m) ! i) = location (enforce_bounds c (Cell_tick c (population m ! i)))"
    and "direction (population (Model_tick c m) ! i) = direction (enforce_bounds c (Cell_tick c (population m ! i)))"
  using contact_rel_place [OF Model_tick_nth [OF assms, of c]] by simp_all

subsection \<open>The contact scan, pair by pair\<close>

lemma inner_fold:
  "check_contacts_inner c n i j pop = fold (\<lambda>j. contact_at c i j) [j..<n] pop"
proof (induction c n i j pop rule: check_contacts_inner.induct)
  case (1 c n i j pop)
  show ?case
  proof (cases "j < n")
    case True
    then show ?thesis
      using 1 by (subst check_contacts_inner.simps) (simp add: upt_conv_Cons)
  next
    case False
    then show ?thesis by (subst check_contacts_inner.simps) simp
  qed
qed

lemma outer_fold:
  "check_contacts_outer c n i pop =
     fold (\<lambda>i. fold (\<lambda>j. contact_at c i j) [i + 1..<n]) [i..<n] pop"
proof (induction c n i pop rule: check_contacts_outer.induct)
  case (1 c n i pop)
  show ?case
  proof (cases "i < n")
    case True
    then show ?thesis
      using 1 by (subst check_contacts_outer.simps) (simp add: upt_conv_Cons inner_fold)
  next
    case False
    then show ?thesis by (subst check_contacts_outer.simps) simp
  qed
qed

lemma fold_concat_map: "fold f (concat (map g xs)) = fold (\<lambda>a. fold f (g a)) xs"
  by (induction xs) simp_all

lemma check_contacts_pairs:
  "check_contacts c pop = fold (\<lambda>p. contact_at c (fst p) (snd p)) (pairs (length pop)) pop"
  by (simp add: check_contacts_def outer_fold pairs_def fold_concat_map fold_map comp_def)

lemma set_pairs: "set (pairs n) = {(i, j). i < j \<and> j < n}"
proof -
  have "set (pairs n) = (\<Union>i\<in>{0..<n}. Pair i ` {Suc i..<n})"
    by (simp add: pairs_def)
  also have "\<dots> = {(i, j). i < j \<and> j < n}"
  proof (intro set_eqI iffI)
    fix p assume "p \<in> (\<Union>i\<in>{0..<n}. Pair i ` {Suc i..<n})"
    then obtain i j where "p = (i, j)" "i < n" "Suc i \<le> j" "j < n"
      by auto
    then show "p \<in> {(i, j). i < j \<and> j < n}" by simp
  next
    fix p :: "nat \<times> nat" assume "p \<in> {(i, j). i < j \<and> j < n}"
    then obtain i j where p: "p = (i, j)" "i < j" "j < n"
      by auto
    then have "i \<in> {0..<n}" and "p \<in> Pair i ` {Suc i..<n}"
      by simp_all
    then show "p \<in> (\<Union>i\<in>{0..<n}. Pair i ` {Suc i..<n})"
      by (rule UN_I)
  qed
  finally show ?thesis .
qed

lemma distinct_pairs: "distinct (pairs n)"
  unfolding pairs_def
proof (rule distinct_concat)
  have "i = j" if "i < n" "j < n" "map (Pair i) [Suc i..<n] = map (Pair j) [Suc j..<n]"
    for i j
  proof -
    from that(3) have "length (map (Pair i) [Suc i..<n]) = length (map (Pair j) [Suc j..<n])"
      by (rule arg_cong)
    with that(1,2) show ?thesis by simp
  qed
  then have "inj_on (\<lambda>i. map (Pair i) [Suc i..<n]) {0..<n}"
    by (intro inj_onI) simp
  then show "distinct (map (\<lambda>i. map (\<lambda>j. (i, j)) [i + 1..<n]) [0..<n])"
    by (simp add: distinct_map)
next
  fix ys assume "ys \<in> set (map (\<lambda>i. map (\<lambda>j. (i, j)) [i + 1..<n]) [0..<n])"
  then obtain i where "ys = map (Pair i) [Suc i..<n]"
    by auto
  then show "distinct ys"
    by (simp add: distinct_map inj_on_def)
next
  fix ys zs
  assume "ys \<in> set (map (\<lambda>i. map (\<lambda>j. (i, j)) [i + 1..<n]) [0..<n])"
    and "zs \<in> set (map (\<lambda>i. map (\<lambda>j. (i, j)) [i + 1..<n]) [0..<n])" and ne: "ys \<noteq> zs"
  then obtain i j where ys: "ys = map (Pair i) [Suc i..<n]" and zs: "zs = map (Pair j) [Suc j..<n]"
    by auto
  with ne have "i \<noteq> j" by blast
  have "fst ` set ys \<subseteq> {i}" "fst ` set zs \<subseteq> {j}"
    unfolding ys zs by auto
  with \<open>i \<noteq> j\<close> show "set ys \<inter> set zs = {}"
    by blast
qed

lemma contact_at_pair:
  "contact_at c i j pop = (if in_range c pop (i, j) then contact_pair c (i, j) pop else pop)"
  by (simp add: contact_at_def in_range_def contact_pair_def Let_def)

lemma contact_pair_length: "length (contact_pair c p pop) = length pop"
  by (simp add: contact_pair_def split: prod.split)

lemma contact_pair_rel:
  assumes "k < length pop"
  shows "contact_rel c (pop ! k) (contact_pair c p pop ! k)"
proof (cases "in_range c pop p")
  case True
  with contact_at_rel [OF assms, of c "fst p" "snd p"] show ?thesis
    by (simp add: contact_at_pair)
next
  case False
  obtain a b where ab: "contact_with c (pop ! fst p) (pop ! snd p) = (a, b)"
    by (cases "contact_with c (pop ! fst p) (pop ! snd p)")
  have a: "contact_rel c (pop ! fst p) a"
    using contact_with_fst_cases [of c "pop ! fst p" "pop ! snd p"] ab by (auto simp: contact_rel_def)
  have b: "contact_rel c (pop ! snd p) b"
    using contact_with_snd_cases [of c "pop ! fst p" "pop ! snd p"] ab by (auto simp: contact_rel_def)
  have "contact_rel c (pop ! k) (pop[fst p := a, snd p := b] ! k)"
  proof (cases "k = snd p")
    case True
    then show ?thesis using assms b by simp
  next
    case False
    then show ?thesis using assms a by (cases "k = fst p") (simp_all add: contact_rel_refl)
  qed
  then show ?thesis
    using ab by (simp add: contact_pair_def)
qed

lemma contact_pair_other:
  "k \<noteq> fst p \<Longrightarrow> k \<noteq> snd p \<Longrightarrow> contact_pair c p pop ! k = pop ! k"
  by (simp add: contact_pair_def split: prod.split)

text \<open>The test of a pair reads locations only, and the scan moves no cell.\<close>

lemma in_range_places:
  assumes "fst p < length pop" "snd p < length pop" "length q = length pop"
    "\<And>k. k < length pop \<Longrightarrow> location (q ! k) = location (pop ! k)"
  shows "in_range c q p = in_range c pop p"
  using assms by (simp add: in_range_def)

lemma fold_in_range:
  assumes "\<forall>p \<in> set ps. fst p < length pop \<and> snd p < length pop"
    and "length q = length pop"
    and "\<And>k. k < length pop \<Longrightarrow> location (q ! k) = location (pop ! k)"
  shows "fold (\<lambda>p. contact_at c (fst p) (snd p)) ps q
           = fold (contact_pair c) (filter (in_range c pop) ps) q"
  using assms
proof (induction ps arbitrary: q)
  case Nil
  then show ?case by simp
next
  case (Cons p ps)
  have same: "in_range c q p = in_range c pop p"
    using Cons.prems by (intro in_range_places) simp_all
  have step: "contact_at c (fst p) (snd p) q = (if in_range c pop p then contact_pair c p q else q)"
    using same by (simp add: contact_at_pair)
  have len: "length (contact_pair c p q) = length pop"
    using Cons.prems(2) by (simp add: contact_pair_length)
  have loc: "location (contact_pair c p q ! k) = location (pop ! k)" if "k < length pop" for k
    using contact_rel_place [OF contact_pair_rel [of k q c p]] that Cons.prems(2,3) by simp
  show ?case
  proof (cases "in_range c pop p")
    case True
    then show ?thesis
      using Cons.IH [of "contact_pair c p q"] Cons.prems(1) len loc step by simp
  next
    case False
    then show ?thesis
      using Cons.IH [of q] Cons.prems step by simp
  qed
qed

lemma check_contacts_scan_eq:
  "check_contacts c pop = fold (contact_pair c) (filter (in_range c pop) (pairs (length pop))) pop"
  unfolding check_contacts_pairs
  by (rule fold_in_range) (auto simp: set_pairs)

lemma fold_contact_pair_other:
  assumes "\<forall>p \<in> set ps. k \<noteq> fst p \<and> k \<noteq> snd p"
  shows "fold (contact_pair c) ps q ! k = q ! k"
  using assms by (induction ps arbitrary: q) (simp_all add: contact_pair_other)

lemma Point_distance_commute: "Point_distance p q = Point_distance q p"
  by (simp add: Point_distance_def power2_commute)

lemma Point_distance_less_iff:
  assumes "0 \<le> r"
  shows "Point_distance p q < r \<longleftrightarrow> (x p - x q)\<^sup>2 + (y p - y q)\<^sup>2 < r\<^sup>2"
proof -
  have "r = sqrt (r\<^sup>2)" using assms by simp
  then have "Point_distance p q < r \<longleftrightarrow> sqrt ((x p - x q)\<^sup>2 + (y p - y q)\<^sup>2) < sqrt (r\<^sup>2)"
    by (simp add: Point_distance_def)
  then show ?thesis by (simp only: real_sqrt_less_iff)
qed

lemma isolated_unchanged:
  assumes "i < length pop"
    and "\<forall>j < length pop. j \<noteq> i \<longrightarrow>
           CELL_RADIUS c \<le> Point_distance (location (pop ! i)) (location (pop ! j))"
  shows "check_contacts c pop ! i = pop ! i"
  unfolding check_contacts_scan_eq
proof (rule fold_contact_pair_other, intro ballI)
  fix p assume "p \<in> set (filter (in_range c pop) (pairs (length pop)))"
  then have p: "fst p < snd p" "snd p < length pop" "in_range c pop p"
    by (auto simp: set_pairs)
  show "i \<noteq> fst p \<and> i \<noteq> snd p"
  proof (intro conjI notI)
    assume "i = fst p"
    with p assms(2) [rule_format, of "snd p"] show False by (simp add: in_range_def)
  next
    assume "i = snd p"
    with p assms(2) [rule_format, of "fst p"] show False
      by (simp add: in_range_def Point_distance_commute [of "location (pop ! fst p)"])
  qed
qed

subsection \<open>A tick of the sample models\<close>

lemma close_model_init:
  "Model_init sample_constants 3 0 1 0 close_draws = Inr close_model"
  by (simp add: Model_init_def Let_def sample_constants_def close_draws_def close_model_def
        sample_cell_def random_location_def random_direction_def py_random_def Cell_init_def
        contract_disease_def numeral_eq_Suc)

lemma pairs_3: "pairs (Suc (Suc (Suc 0))) = [(0, Suc 0), (0, 2), (Suc 0, 2)]"
  by (simp add: pairs_def upt_conv_Cons numeral_eq_Suc)

lemma sample_cell_tick:
  "enforce_bounds sample_constants (Cell_tick sample_constants (sample_cell px v)) =
     sample_cell (if 200 < px then 200 else if px < - 200 then - 200 else px)
       (if 1 \<le> v then (if 90 < v + 1 then - 1 else v + 1) else if 90 < v then - 1 else v)"
  by (simp add: enforce_bounds_def Cell_tick_def Let_def sample_cell_def sample_fields
        Point_add_def is_infected_def immunize_def)

lemma sample_cell_in_range:
  "in_range sample_constants [sample_cell p0 v0, sample_cell p1 v1, sample_cell p2 v2] (0, Suc 0)
     \<longleftrightarrow> (p0 - p1)\<^sup>2 < 225"
  "in_range sample_constants [sample_cell p0 v0, sample_cell p1 v1, sample_cell p2 v2] (0, 2)
     \<longleftrightarrow> (p0 - p2)\<^sup>2 < 225"
  "in_range sample_constants [sample_cell p0 v0, sample_cell p1 v1, sample_cell p2 v2] (Suc 0, 2)
     \<longleftrightarrow> (p1 - p2)\<^sup>2 < 225"
  by (simp_all add: in_range_def Point_distance_less_iff sample_fields sample_cell_def)

lemma sample_contact_with:
  "contact_with sample_constants (sample_cell p v) (sample_cell q w) =
     (if 1 \<le> w \<and> v = 0 then (sample_cell p 1, sample_cell q w)
      else if 1 \<le> v \<and> w = 0 then (sample_cell p v, sample_cell q 1)
      else (sample_cell p v, sample_cell q w))"
  by (simp add: contact_with_def is_infected_def is_vulnerable_def contract_disease_def
        sample_fields sample_cell_def)

lemma sample_model_tick:
  "population (Model_tick sample_constants sample_model)
     = [sample_cell (- 200) 2, sample_cell (- 190) 1, sample_cell (- 180) 1]"
  by (simp add: Model_tick_population check_contacts_scan_eq sample_model_def sample_cell_tick
        pairs_3 sample_cell_in_range contact_pair_def sample_contact_with)

lemma close_model_tick:
  "population (Model_tick sample_constants close_model)
     = [sample_cell (- 200) 2, sample_cell (- 195) 1, sample_cell (- 190) 1]"
  by (simp add: Model_tick_population check_contacts_scan_eq close_model_def sample_cell_tick
        pairs_3 sample_cell_in_range contact_pair_def sample_contact_with)

lemma pairs_2: "pairs (Suc (Suc 0)) = [(0, Suc 0)]"
  by (simp add: pairs_def upt_conv_Cons)

lemma Point_distance_ge_iff:
  assumes "0 \<le> r"
  shows "r \<le> Point_distance p q \<longleftrightarrow> r\<^sup>2 \<le> (x p - x q)\<^sup>2 + (y p - y q)\<^sup>2"
  using Point_distance_less_iff [OF assms, of p q] by (simp add: not_less [symmetric])

lemma far_pair_unchanged:
  assumes "CELL_RADIUS c \<le> Point_distance (location a) (location b)"
  shows "check_contacts c [a, b] = [a, b]"
  using assms by (simp add: check_contacts_scan_eq pairs_2 in_range_def)

subsection \<open>The cells that the draws make\<close>

lemma spawn_cells:
  "spawn c speed mark k (pop, \<lambda>n. s (n + 3 * a))
     = (pop @ map (\<lambda>j. mark (drawn_cell c speed s j)) [a..<a + k], \<lambda>n. s (n + 3 * (a + k)))"
proof (induction k arbitrary: pop a)
  case 0
  then show ?case by simp
next
  case (Suc k)
  have "Suc (Suc (Suc (n + 3 * a))) = n + 3 * Suc a" for n
    by simp
  then have shift: "(\<lambda>n. s (Suc (Suc (Suc (n + 3 * a))))) = (\<lambda>n. s (n + 3 * Suc a))"
    by (simp only:)
  have "spawn c speed mark (Suc k) (pop, \<lambda>n. s (n + 3 * a))
          = spawn c speed mark k (pop @ [mark (drawn_cell c speed s a)], \<lambda>n. s (n + 3 * Suc a))"
    by (simp add: random_location_def random_direction_def py_random_def Let_def drawn_cell_def
          add.commute del: mult_Suc_right)
       (simp only: shift [unfolded add.commute [of _ "3 * a"]] add.commute [of _ "3 * a"])
  also have "\<dots> = ((pop @ [mark (drawn_cell c speed s a)])
                      @ map (\<lambda>j. mark (drawn_cell c speed s j)) [Suc a..<Suc a + k],
                    \<lambda>n. s (n + 3 * (Suc a + k)))"
    by (rule Suc.IH)
  also have "\<dots> = (pop @ map (\<lambda>j. mark (drawn_cell c speed s j)) [a..<a + Suc k],
                    \<lambda>n. s (n + 3 * (a + Suc k)))"
  proof -
    have "[a..<a + Suc k] = a # [Suc a..<a + Suc k]"
      by (rule upt_conv_Cons) simp
    moreover have "Suc a + k = a + Suc k"
      by simp
    ultimately show ?thesis
      by (simp only: list.map append.simps append_assoc)
  qed
  finally show ?case .
qed

lemma Model_init_cells:
  assumes "Model_init c cells speed num_infected num_immune s = Inr m"
  shows "population m =
           map (\<lambda>j. immunize c (drawn_cell c speed s j)) [0..<nat num_immune]
           @ map (\<lambda>j. contract_disease c (drawn_cell c speed s j))
               [nat num_immune..<nat num_immune + nat num_infected]
           @ map (\<lambda>j. drawn_cell c speed s j)
               [nat num_immune + nat num_infected..<nat cells]"
proof -
  have valid: "0 < num_infected" "0 \<le> num_immune" "num_immune + num_infected \<le> cells"
    using assms by (auto simp: Model_init_def split: if_splits)
  then have total: "nat num_immune + nat num_infected + nat (cells - num_infected - num_immune) = nat cells"
    by simp
  have start: "([], s) = ([], \<lambda>n. s (n + 3 * 0))"
    by simp
  have "population m = fst (spawn c speed (\<lambda>cell. cell) (nat (cells - num_infected - num_immune))
          (spawn c speed (contract_disease c) (nat num_infected)
            (spawn c speed (immunize c) (nat num_immune) ([], s))))"
    using assms by (auto simp: Model_init_def Let_def split: if_splits)
  also have "\<dots> = map (\<lambda>j. immunize c (drawn_cell c speed s j)) [0..<nat num_immune]
           @ map (\<lambda>j. contract_disease c (drawn_cell c speed s j))
               [nat num_immune..<nat num_immune + nat num_infected]
           @ map (\<lambda>j. drawn_cell c speed s j)
               [nat num_immune + nat num_infected..<nat cells]"
    unfolding start spawn_cells by (simp add: total)
  finally show ?thesis .
qed

lemma Model_init_place:
  assumes "Model_init c cells speed num_infected num_immune s = Inr m"
  shows "length (population m) = nat cells"
    and "i < nat cells \<Longrightarrow> location (population m ! i) = location (drawn_cell c speed s i)"
    and "i < nat cells \<Longrightarrow> direction (population m ! i) = direction (drawn_cell c speed s i)"
proof -
  have valid: "0 < num_infected" "0 \<le> num_immune" "num_immune + num_infected \<le> cells"
    using assms by (auto simp: Model_init_def split: if_splits)
  then have le: "nat num_immune \<le> nat num_immune + nat num_infected"
    "nat num_immune + nat num_infected \<le> nat cells"
    by simp_all
  obtain v where v: "nat cells = (nat num_immune + nat num_infected) + v"
    using le(2) by (auto simp: le_iff_add)
  have "[0..<nat num_immune + nat num_infected]
          = [0..<nat num_immune] @ [nat num_immune..<nat num_immune + nat num_infected]"
    by (rule upt_add_eq_append) simp
  moreover have "[0..<(nat num_immune + nat num_infected) + v]
          = [0..<nat num_immune + nat num_infected]
            @ [nat num_immune + nat num_infected..<(nat num_immune + nat num_infected) + v]"
    by (rule upt_add_eq_append) simp
  ultimately have split: "[0..<nat cells] = [0..<nat num_immune]
      @ [nat num_immune..<nat num_immune + nat num_infected]
      @ [nat num_immune + nat num_infected..<nat cells]"
    unfolding v by simp
  note pop = Model_init_cells [OF assms]
  have loc: "map location (population m) = map (\<lambda>j. location (drawn_cell c speed s j)) [0..<nat cells]"
    unfolding pop split by (simp add: immunize_def contract_disease_def)
  have dir: "map direction (population m) = map (\<lambda>j. direction (drawn_cell c speed s j)) [0..<nat cells]"
    unfolding pop split by (simp add: immunize_def contract_disease_def)
  from loc have "length (map location (population m)) = nat cells"
    by simp
  then show len: "length (population m) = nat cells"
    by simp
  show "location (population m ! i) = location (drawn_cell c speed s i)" if "i < nat cells"
    using that len arg_cong [OF loc, of "\<lambda>l. l ! i"] by simp
  show "direction (population m ! i) = direction (drawn_cell c speed s i)" if "i < nat cells"
    using that len arg_cong [OF dir, of "\<lambda>l. l ! i"] by simp
qed

lemma draw_above:
  fixes r w hi lo :: real
  assumes "0 \<le> r" "0 \<le> w" "lo \<le> - hi"
  shows "lo \<le> r * w - hi"
proof -
  have "0 \<le> r * w" using assms by simp
  with assms show ?thesis by linarith
qed

lemma draw_below:
  fixes r w hi :: real
  assumes "0 \<le> r" "r < 1" "0 \<le> w" "w \<le> 2 * hi"
  shows "r * w - hi \<le> hi"
proof -
  have "r * w \<le> 1 * w" using assms by (intro mult_right_mono) simp_all
  with assms show ?thesis by linarith
qed

section \<open>The claims\<close>

text \<open>
  C1. The constructor raises \<open>ValueError\<close> exactly when
  \<open>num_infected \<le> 0\<close> or \<open>num_infected \<ge> cells\<close> or \<open>num_immune < 0\<close> or
  \<open>num_immune \<ge> cells\<close> or \<open>num_infected + num_immune > cells\<close>. Otherwise it returns a
  model at time 0 whose population is, in this order, \<open>num_immune\<close> immune cells,
  \<open>num_infected\<close> infected cells (at the infected threshold) and
  \<open>cells - num_infected - num_immune\<close> vulnerable cells.
\<close>

theorem Model_init_validation:
  "(Model_init c cells speed num_infected num_immune s = Inl ValueError)
     = (num_infected \<le> 0 \<or> num_infected \<ge> cells \<or> num_immune < 0 \<or> num_immune \<ge> cells
        \<or> num_infected + num_immune > cells)
   \<and> (\<not> (num_infected \<le> 0 \<or> num_infected \<ge> cells \<or> num_immune < 0 \<or> num_immune \<ge> cells
          \<or> num_infected + num_immune > cells) \<longrightarrow>
        (\<exists>m. Model_init c cells speed num_infected num_immune s = Inr m
           \<and> time m = 0
           \<and> map sickness (population m) =
               replicate (nat num_immune) (IMMUNE c) @ replicate (nat num_infected) (INFECTED c)
               @ replicate (nat (cells - num_infected - num_immune)) (VULNERABLE c)
           \<and> (sentinels_ok c \<longrightarrow>
                map (color c) (population m) =
                  replicate (nat num_immune) ''yellow'' @ replicate (nat num_infected) ''red''
                  @ replicate (nat (cells - num_infected - num_immune)) ''gray'')))"
proof (intro conjI impI)
  show "(Model_init c cells speed num_infected num_immune s = Inl ValueError)
     = (num_infected \<le> 0 \<or> num_infected \<ge> cells \<or> num_immune < 0 \<or> num_immune \<ge> cells
        \<or> num_infected + num_immune > cells)"
    by (auto simp: Model_init_def Let_def)
next
  assume valid: "\<not> (num_infected \<le> 0 \<or> num_infected \<ge> cells \<or> num_immune < 0 \<or> num_immune \<ge> cells
          \<or> num_infected + num_immune > cells)"
  then obtain m where m: "Model_init c cells speed num_infected num_immune s = Inr m"
    and t: "time m = 0"
    by (auto simp: Model_init_def Let_def)
  note lv = Model_init_sickness [OF m]
  have "map (color c) (population m) =
          replicate (nat num_immune) ''yellow'' @ replicate (nat num_infected) ''red''
          @ replicate (nat (cells - num_infected - num_immune)) ''gray''" if "sentinels_ok c"
    unfolding map_color_by_sickness lv using that
    by (simp add: sentinels_ok_def map_replicate_const)
  with m t lv show "\<exists>m. Model_init c cells speed num_infected num_immune s = Inr m
           \<and> time m = 0
           \<and> map sickness (population m) =
               replicate (nat num_immune) (IMMUNE c) @ replicate (nat num_infected) (INFECTED c)
               @ replicate (nat (cells - num_infected - num_immune)) (VULNERABLE c)
           \<and> (sentinels_ok c \<longrightarrow>
                map (color c) (population m) =
                  replicate (nat num_immune) ''yellow'' @ replicate (nat num_infected) ''red''
                  @ replicate (nat (cells - num_infected - num_immune)) ''gray'')"
    by blast
qed

theorem Model_init_validation_witness:
  "Model_init sample_constants 4 0 1 1 (\<lambda>n. 0) \<noteq> Inl ValueError
   \<and> (\<exists>m. Model_init sample_constants 4 0 1 1 (\<lambda>n. 0) = Inr m
         \<and> time m = 0
         \<and> map sickness (population m) = [- 1, 1, 0, 0]
         \<and> map (color sample_constants) (population m) = [''yellow'', ''red'', ''gray'', ''gray''])
   \<and> Model_init sample_constants 4 0 0 1 (\<lambda>n. 0) = Inl ValueError
   \<and> Model_init sample_constants 4 0 2 3 (\<lambda>n. 0) = Inl ValueError"
  using Model_init_validation [of sample_constants 4 0 1 1 "\<lambda>n. 0"]
    Model_init_validation [of sample_constants 4 0 0 1 "\<lambda>n. 0"]
    Model_init_validation [of sample_constants 4 0 2 3 "\<lambda>n. 0"]
  by (simp add: sample_constants_def sentinels_ok_def numeral_eq_Suc)

text \<open>
  C2. \<open>contact_with\<close> infects \<open>self\<close> (sickness set to \<open>INFECTED\<close>) if the other cell
  is infected and \<open>self\<close> is vulnerable; otherwise it infects the other cell if \<open>self\<close> is
  infected and the other is vulnerable; otherwise it changes nothing. At most one of the
  two cells is changed, and a cell that is immune or infected is left as it is.
\<close>

theorem contact_with_rule:
  "contact_with c self other =
     (if is_infected c other \<and> is_vulnerable c self then (self\<lparr>sickness := INFECTED c\<rparr>, other)
      else if is_infected c self \<and> is_vulnerable c other then (self, other\<lparr>sickness := INFECTED c\<rparr>)
      else (self, other))
   \<and> (fst (contact_with c self other) = self \<or> snd (contact_with c self other) = other)
   \<and> (sentinels_ok c \<and> (is_immune c self \<or> is_infected c self)
        \<longrightarrow> fst (contact_with c self other) = self)
   \<and> (sentinels_ok c \<and> (is_immune c other \<or> is_infected c other)
        \<longrightarrow> snd (contact_with c self other) = other)"
  by (auto simp: contact_with_def contract_disease_def sentinels_ok_def
        is_infected_def is_vulnerable_def is_immune_def)

theorem contact_with_rule_witness:
  "sentinels_ok sample_constants
   \<and> is_infected sample_constants \<lparr>location = \<lparr>x = 0, y = 0\<rparr>, direction = \<lparr>x = 1, y = 0\<rparr>, sickness = 5\<rparr>
   \<and> is_immune sample_constants \<lparr>location = \<lparr>x = 3, y = 4\<rparr>, direction = \<lparr>x = 0, y = 1\<rparr>, sickness = - 1\<rparr>
   \<and> contact_with sample_constants
        \<lparr>location = \<lparr>x = 0, y = 0\<rparr>, direction = \<lparr>x = 1, y = 0\<rparr>, sickness = 5\<rparr>
        \<lparr>location = \<lparr>x = 3, y = 4\<rparr>, direction = \<lparr>x = 0, y = 1\<rparr>, sickness = - 1\<rparr>
      = (\<lparr>location = \<lparr>x = 0, y = 0\<rparr>, direction = \<lparr>x = 1, y = 0\<rparr>, sickness = 5\<rparr>,
         \<lparr>location = \<lparr>x = 3, y = 4\<rparr>, direction = \<lparr>x = 0, y = 1\<rparr>, sickness = - 1\<rparr>)
   \<and> contact_with sample_constants
        \<lparr>location = \<lparr>x = 0, y = 0\<rparr>, direction = \<lparr>x = 1, y = 0\<rparr>, sickness = 0\<rparr>
        \<lparr>location = \<lparr>x = 3, y = 4\<rparr>, direction = \<lparr>x = 0, y = 1\<rparr>, sickness = 5\<rparr>
      = (\<lparr>location = \<lparr>x = 0, y = 0\<rparr>, direction = \<lparr>x = 1, y = 0\<rparr>, sickness = 1\<rparr>,
         \<lparr>location = \<lparr>x = 3, y = 4\<rparr>, direction = \<lparr>x = 0, y = 1\<rparr>, sickness = 5\<rparr>)"
  using contact_with_rule [of sample_constants
        "\<lparr>location = \<lparr>x = 0, y = 0\<rparr>, direction = \<lparr>x = 1, y = 0\<rparr>, sickness = 5\<rparr>"
        "\<lparr>location = \<lparr>x = 3, y = 4\<rparr>, direction = \<lparr>x = 0, y = 1\<rparr>, sickness = - 1\<rparr>"]
    contact_with_rule [of sample_constants
        "\<lparr>location = \<lparr>x = 0, y = 0\<rparr>, direction = \<lparr>x = 1, y = 0\<rparr>, sickness = 0\<rparr>"
        "\<lparr>location = \<lparr>x = 3, y = 4\<rparr>, direction = \<lparr>x = 0, y = 1\<rparr>, sickness = 5\<rparr>"]
  by (simp add: sample_constants_def sentinels_ok_def is_infected_def is_vulnerable_def is_immune_def)

text \<open>
  C8. The sickness level is the vulnerable sentinel, the immune sentinel, or at least the
  infected threshold: \<open>Cell.tick\<close>, \<open>contract_disease\<close>, \<open>immunize\<close>, \<open>enforce_bounds\<close>,
  \<open>contact_with\<close> and \<open>Model.tick\<close> keep it so, and it holds of every cell after any
  number of ticks of a model that the constructor returned.
\<close>

theorem sickness_level_invariant:
  "(level_ok c cell \<longrightarrow> level_ok c (Cell_tick c cell))
   \<and> level_ok c (contract_disease c cell)
   \<and> level_ok c (immunize c cell)
   \<and> (level_ok c cell \<longrightarrow> level_ok c (enforce_bounds c cell))
   \<and> (level_ok c a \<and> level_ok c b \<longrightarrow>
        level_ok c (fst (contact_with c a b)) \<and> level_ok c (snd (contact_with c a b)))
   \<and> (list_all (level_ok c) (population m) \<longrightarrow> list_all (level_ok c) (population (Model_tick c m)))
   \<and> (Model_init c cells speed num_infected num_immune s = Inr m0 \<longrightarrow>
        list_all (level_ok c) (population ((Model_tick c ^^ n) m0)))"
proof (intro conjI impI)
  show "level_ok c (contract_disease c cell)"
    by (simp add: level_ok_def contract_disease_def)
  show "level_ok c (immunize c cell)"
    by (simp add: level_ok_def immunize_def)
  show "level_ok c (Cell_tick c cell)" if "level_ok c cell"
    using that by (rule Cell_tick_level_ok)
  show "level_ok c (enforce_bounds c cell)" if "level_ok c cell"
    using that by (simp add: level_ok_def enforce_bounds_sickness)
  show "level_ok c (fst (contact_with c a b))" if "level_ok c a \<and> level_ok c b"
    using that contact_with_fst_cases [of c a b]
    by (auto simp: level_ok_def contract_disease_def)
  show "level_ok c (snd (contact_with c a b))" if "level_ok c a \<and> level_ok c b"
    using that contact_with_snd_cases [of c a b]
    by (auto simp: level_ok_def contract_disease_def)
  show "list_all (level_ok c) (population (Model_tick c m))" if "list_all (level_ok c) (population m)"
    using that by (rule Model_tick_level_ok)
  show "list_all (level_ok c) (population ((Model_tick c ^^ n) m0))"
    if "Model_init c cells speed num_infected num_immune s = Inr m0"
    using Model_init_level_ok [OF that] by (rule ticks_level_ok)
qed

theorem sickness_level_invariant_witness:
  "level_ok sample_constants (sample_cell 0 90)
   \<and> level_ok sample_constants (Cell_tick sample_constants (sample_cell 0 90))
   \<and> level_ok sample_constants (sample_cell 0 0) \<and> level_ok sample_constants (sample_cell 5 1)
   \<and> level_ok sample_constants (fst (contact_with sample_constants (sample_cell 0 0) (sample_cell 5 1)))
   \<and> list_all (level_ok sample_constants) (population sample_model)
   \<and> list_all (level_ok sample_constants) (population (Model_tick sample_constants sample_model))
   \<and> Model_init sample_constants 3 0 1 0 sample_draws = Inr sample_model
   \<and> list_all (level_ok sample_constants) (population ((Model_tick sample_constants ^^ 2) sample_model))"
  using sickness_level_invariant [where c = sample_constants and cell = "sample_cell 0 90"
      and a = "sample_cell 0 0" and b = "sample_cell 5 1" and m = sample_model and cells = 3
      and speed = 0 and num_infected = 1 and num_immune = 0 and s = sample_draws
      and ?m0.0 = sample_model and n = 2]
    sample_model_init sample_model_level_ok
  by (simp add: level_ok_def sample_cell_def sample_constants_def)

text \<open>
  C7. In a model that the constructor returned, with sound sentinels: a cell that is
  immune after \<open>n\<close> ticks is immune after \<open>n + k\<close> ticks; a cell that is infected after
  \<open>n\<close> ticks is infected or immune, and not vulnerable, after \<open>n + k\<close> ticks; from one
  tick to the next the status (as \<open>color\<close> shows it) stays as it is, or goes from
  vulnerable to infected, or from infected to immune. \<open>Cell.tick\<close> leaves a vulnerable
  cell vulnerable, so an infection comes from the contact scan; and a cell that went from
  infected to immune did so in \<open>Cell.tick\<close>.
\<close>

theorem status_monotone:
  assumes "sentinels_ok c"
    and "Model_init c cells speed num_infected num_immune s = Inr m0"
    and "i < length (population m0)"
  shows "(is_immune c (population ((Model_tick c ^^ n) m0) ! i)
            \<longrightarrow> is_immune c (population ((Model_tick c ^^ (n + k)) m0) ! i))
       \<and> (is_infected c (population ((Model_tick c ^^ n) m0) ! i)
            \<longrightarrow> (is_infected c (population ((Model_tick c ^^ (n + k)) m0) ! i)
                 \<or> is_immune c (population ((Model_tick c ^^ (n + k)) m0) ! i))
                \<and> \<not> is_vulnerable c (population ((Model_tick c ^^ (n + k)) m0) ! i))
       \<and> (color c (population ((Model_tick c ^^ n) m0) ! i),
           color c (population ((Model_tick c ^^ Suc n) m0) ! i))
          \<in> {(''gray'', ''gray''), (''gray'', ''red''), (''red'', ''red''), (''red'', ''yellow''),
              (''yellow'', ''yellow'')}
       \<and> (color c (population ((Model_tick c ^^ n) m0) ! i) = ''gray''
            \<longrightarrow> color c (Cell_tick c (population ((Model_tick c ^^ n) m0) ! i)) = ''gray'')
       \<and> (color c (population ((Model_tick c ^^ n) m0) ! i) = ''red''
            \<and> color c (population ((Model_tick c ^^ Suc n) m0) ! i) = ''yellow''
            \<longrightarrow> color c (Cell_tick c (population ((Model_tick c ^^ n) m0) ! i)) = ''yellow'')"
proof -
  let ?m = "(Model_tick c ^^ n) m0"
  note st = status_by_sickness [OF assms(1)]
  have len: "i < length (population ?m)"
    using assms(3) by (simp add: ticks_length)
  have ok: "level_ok c (population ?m ! i)"
    using ticks_level_ok [OF Model_init_level_ok [OF assms(2)], of n] len
    by (simp add: list_all_length)
  have later: "(Model_tick c ^^ (n + k)) m0 = (Model_tick c ^^ k) ?m"
    by (rule ticks_add)
  have next_m: "(Model_tick c ^^ Suc n) m0 = Model_tick c ?m"
    by simp
  have 1: "is_immune c (population ((Model_tick c ^^ (n + k)) m0) ! i)"
    if "is_immune c (population ?m ! i)"
    using immune_ticks [OF assms(1) len, of k] that unfolding later st by simp
  have 2: "(is_infected c (population ((Model_tick c ^^ (n + k)) m0) ! i)
            \<or> is_immune c (population ((Model_tick c ^^ (n + k)) m0) ! i))
           \<and> \<not> is_vulnerable c (population ((Model_tick c ^^ (n + k)) m0) ! i)"
    if "is_infected c (population ?m ! i)"
    using resolved_ticks [OF assms(1) len, of k] that assms(1) unfolding later st
    by (auto simp: sentinels_ok_def)
  have 3: "(color c (population ?m ! i), color c (population ((Model_tick c ^^ Suc n) m0) ! i))
          \<in> {(''gray'', ''gray''), (''gray'', ''red''), (''red'', ''red''), (''red'', ''yellow''),
              (''yellow'', ''yellow'')}"
  proof -
    consider "sickness (population ?m ! i) = VULNERABLE c"
      | "sickness (population ?m ! i) = IMMUNE c"
      | "sickness (population ?m ! i) \<ge> INFECTED c"
      using ok by (auto simp: level_ok_def)
    then show ?thesis
    proof cases
      case 1
      with vulnerable_step [OF assms(1) len] show ?thesis
        unfolding next_m by (auto simp: st(4-6))
    next
      case 2
      with immune_step [OF assms(1) len] show ?thesis
        unfolding next_m by (auto simp: st(4-6))
    next
      case 3
      from infected_step [OF assms(1) len 3] 3 have
        "sickness (population (Model_tick c ?m) ! i) = IMMUNE c
         \<or> sickness (population (Model_tick c ?m) ! i) \<ge> INFECTED c"
        by (simp split: if_splits)
      with 3 show ?thesis
        unfolding next_m by (auto simp: st(4-6))
    qed
  qed
  have 4: "color c (Cell_tick c (population ?m ! i)) = ''gray''"
    if "color c (population ?m ! i) = ''gray''"
    using that vulnerable_step [OF assms(1) len] unfolding st by simp
  have 5: "color c (Cell_tick c (population ?m ! i)) = ''yellow''"
    if "color c (population ?m ! i) = ''red''
        \<and> color c (population ((Model_tick c ^^ Suc n) m0) ! i) = ''yellow''"
  proof -
    from that have inf: "sickness (population ?m ! i) \<ge> INFECTED c"
      and imm: "sickness (population (Model_tick c ?m) ! i) = IMMUNE c"
      unfolding next_m st by simp_all
    from infected_step [OF assms(1) len inf] imm inf assms(1) show ?thesis
      unfolding st by (auto simp: Cell_tick_sickness Let_def sentinels_ok_def split: if_splits)
  qed
  from 1 2 3 4 5 show ?thesis by blast
qed

theorem status_monotone_witness:
  "sentinels_ok sample_constants
   \<and> Model_init sample_constants 3 0 1 0 sample_draws = Inr sample_model
   \<and> 1 < length (population sample_model)
   \<and> is_infected sample_constants (population ((Model_tick sample_constants ^^ 0) sample_model) ! 0)
   \<and> \<not> is_vulnerable sample_constants (population ((Model_tick sample_constants ^^ (0 + 7)) sample_model) ! 0)
   \<and> is_immune sample_constants (population ((Model_tick sample_constants ^^ 90) sample_model) ! 0)
   \<and> is_immune sample_constants (population ((Model_tick sample_constants ^^ (90 + 7)) sample_model) ! 0)
   \<and> color sample_constants (population ((Model_tick sample_constants ^^ 89) sample_model) ! 0) = ''red''
   \<and> color sample_constants (population ((Model_tick sample_constants ^^ Suc 89) sample_model) ! 0) = ''yellow''
   \<and> color sample_constants
        (Cell_tick sample_constants (population ((Model_tick sample_constants ^^ 89) sample_model) ! 0)) = ''yellow''
   \<and> color sample_constants (population ((Model_tick sample_constants ^^ 0) sample_model) ! 1) = ''gray''
   \<and> color sample_constants
        (Cell_tick sample_constants (population ((Model_tick sample_constants ^^ 0) sample_model) ! 1)) = ''gray''"
proof -
  have len: "0 < length (population sample_model)" "1 < length (population sample_model)"
    by (simp_all add: sample_model_def)
  note st = status_by_sickness [OF sample_sentinels_ok]
  have a: "is_infected sample_constants (population ((Model_tick sample_constants ^^ 0) sample_model) ! 0)"
    by (simp add: st sample_model_def sample_cell_def sample_fields)
  have b: "is_immune sample_constants (population ((Model_tick sample_constants ^^ 90) sample_model) ! 0)"
    by (simp add: st sample_model_history sample_fields)
  have d: "color sample_constants (population ((Model_tick sample_constants ^^ 89) sample_model) ! 0) = ''red''"
    by (simp add: st sample_model_history sample_fields)
  have e: "color sample_constants (population ((Model_tick sample_constants ^^ Suc 89) sample_model) ! 0) = ''yellow''"
    using sample_model_history(2) by (simp add: st sample_fields)
  have f: "color sample_constants (population ((Model_tick sample_constants ^^ 0) sample_model) ! 1) = ''gray''"
    by (simp add: st sample_model_def sample_cell_def sample_fields)
  note at_0 = status_monotone [OF sample_sentinels_ok sample_model_init len(1), of 0 7]
  note at_90 = status_monotone [OF sample_sentinels_ok sample_model_init len(1), of 90 7]
  note at_89 = status_monotone [OF sample_sentinels_ok sample_model_init len(1), of 89 0]
  note cell_1 = status_monotone [OF sample_sentinels_ok sample_model_init len(2), of 0 0]
  have w1: "\<not> is_vulnerable sample_constants
              (population ((Model_tick sample_constants ^^ (0 + 7)) sample_model) ! 0)"
    using at_0 [THEN conjunct2, THEN conjunct1, THEN mp, OF a] by (rule conjunct2)
  have w2: "is_immune sample_constants
              (population ((Model_tick sample_constants ^^ (90 + 7)) sample_model) ! 0)"
    using at_90 [THEN conjunct1, THEN mp, OF b] .
  have w3: "color sample_constants (Cell_tick sample_constants
              (population ((Model_tick sample_constants ^^ 89) sample_model) ! 0)) = ''yellow''"
    using at_89 [THEN conjunct2, THEN conjunct2, THEN conjunct2, THEN conjunct2, THEN mp,
        OF conjI [OF d e]] .
  have w4: "color sample_constants (Cell_tick sample_constants
              (population ((Model_tick sample_constants ^^ 0) sample_model) ! 1)) = ''gray''"
    using cell_1 [THEN conjunct2, THEN conjunct2, THEN conjunct2, THEN conjunct1, THEN mp, OF f] .
  show ?thesis
    by (intro conjI sample_sentinels_ok sample_model_init len(2) a b d e f w1 w2 w3 w4)
qed

text \<open>
  C3, as amended. With sound sentinels and \<open>INFECTED \<le> RECOVERY_PERIOD\<close>: a cell whose
  sickness is \<open>INFECTED\<close> at time \<open>T\<close> (it was infected in the tick that ended at \<open>T\<close>,
  or built infected at \<open>T = 0\<close>) is infected, with sickness \<open>INFECTED + k\<close>, at every
  time \<open>T + k\<close> with \<open>k \<le> RECOVERY_PERIOD - INFECTED\<close>, and is immune at time
  \<open>T + (RECOVERY_PERIOD - INFECTED) + 1\<close>.
\<close>

theorem recovery_timing:
  assumes "sentinels_ok c"
    and "INFECTED c \<le> RECOVERY_PERIOD c"
    and "i < length (population m)"
    and "sickness (population m ! i) = INFECTED c"
    and "time m = T"
  shows "(\<forall>k. int k \<le> RECOVERY_PERIOD c - INFECTED c \<longrightarrow>
            time ((Model_tick c ^^ k) m) = T + int k
            \<and> is_infected c (population ((Model_tick c ^^ k) m) ! i)
            \<and> \<not> is_immune c (population ((Model_tick c ^^ k) m) ! i)
            \<and> sickness (population ((Model_tick c ^^ k) m) ! i) = INFECTED c + int k)
       \<and> time ((Model_tick c ^^ (nat (RECOVERY_PERIOD c - INFECTED c) + 1)) m)
           = T + (RECOVERY_PERIOD c - INFECTED c) + 1
       \<and> is_immune c (population ((Model_tick c ^^ (nat (RECOVERY_PERIOD c - INFECTED c) + 1)) m) ! i)
       \<and> \<not> is_infected c (population ((Model_tick c ^^ (nat (RECOVERY_PERIOD c - INFECTED c) + 1)) m) ! i)"
proof -
  note st = status_by_sickness [OF assms(1)]
  have "time ((Model_tick c ^^ k) m) = T + int k
        \<and> is_infected c (population ((Model_tick c ^^ k) m) ! i)
        \<and> \<not> is_immune c (population ((Model_tick c ^^ k) m) ! i)
        \<and> sickness (population ((Model_tick c ^^ k) m) ! i) = INFECTED c + int k"
    if "int k \<le> RECOVERY_PERIOD c - INFECTED c" for k
    using infected_ticks [OF assms(1,3,4) that] assms(1,5)
    by (simp add: st ticks_time sentinels_ok_def)
  moreover have "time ((Model_tick c ^^ (nat (RECOVERY_PERIOD c - INFECTED c) + 1)) m)
           = T + (RECOVERY_PERIOD c - INFECTED c) + 1"
    using assms(2,5) by (simp add: ticks_time Model_tick_time)
  moreover have "is_immune c (population ((Model_tick c ^^ (nat (RECOVERY_PERIOD c - INFECTED c) + 1)) m) ! i)
     \<and> \<not> is_infected c (population ((Model_tick c ^^ (nat (RECOVERY_PERIOD c - INFECTED c) + 1)) m) ! i)"
    using recovery_tick [OF assms(1,3,4,2)] assms(1)
    by (simp add: st sentinels_ok_def)
  ultimately show ?thesis by blast
qed

theorem recovery_timing_witness:
  "sentinels_ok sample_constants
   \<and> INFECTED sample_constants \<le> RECOVERY_PERIOD sample_constants
   \<and> 0 < length (population sample_model)
   \<and> sickness (population sample_model ! 0) = INFECTED sample_constants
   \<and> time sample_model = 0
   \<and> time ((Model_tick sample_constants ^^ 90) sample_model) = 90
   \<and> is_immune sample_constants (population ((Model_tick sample_constants ^^ 90) sample_model) ! 0)
   \<and> is_infected sample_constants (population ((Model_tick sample_constants ^^ 89) sample_model) ! 0)"
proof -
  have h: "sentinels_ok sample_constants"
    "INFECTED sample_constants \<le> RECOVERY_PERIOD sample_constants"
    "0 < length (population sample_model)"
    "sickness (population sample_model ! 0) = INFECTED sample_constants"
    "time sample_model = 0"
    by (simp_all add: sentinels_ok_def sample_fields sample_model_def sample_cell_def)
  have k: "int 89 \<le> RECOVERY_PERIOD sample_constants - INFECTED sample_constants"
    "nat (RECOVERY_PERIOD sample_constants - INFECTED sample_constants) + 1 = 90"
    "(0::int) + (RECOVERY_PERIOD sample_constants - INFECTED sample_constants) + 1 = 90"
    by (simp_all add: sample_fields)
  from recovery_timing [OF h] have
    "(int 89 \<le> RECOVERY_PERIOD sample_constants - INFECTED sample_constants \<longrightarrow>
        is_infected sample_constants (population ((Model_tick sample_constants ^^ 89) sample_model) ! 0))
     \<and> time ((Model_tick sample_constants ^^ 90) sample_model) = 90
     \<and> is_immune sample_constants (population ((Model_tick sample_constants ^^ 90) sample_model) ! 0)"
    unfolding k by blast
  with h k(1) show ?thesis by blast
qed

text \<open>
  C3 as stated fails: with \<open>INFECTED = 1\<close> and \<open>RECOVERY_PERIOD = 90\<close>, the cell that
  the constructor made infected at time 0 is still infected at time 89 and immune at
  time 90, one tick before \<open>0 + RECOVERY_PERIOD + 1\<close>.
\<close>

theorem recovery_timing_counterexample:
  "Model_init sample_constants 3 0 1 0 sample_draws = Inr sample_model
   \<and> time sample_model = 0
   \<and> sickness (population sample_model ! 0) = INFECTED sample_constants
   \<and> is_infected sample_constants (population ((Model_tick sample_constants ^^ 89) sample_model) ! 0)
   \<and> time ((Model_tick sample_constants ^^ 90) sample_model) = 90
   \<and> is_immune sample_constants (population ((Model_tick sample_constants ^^ 90) sample_model) ! 0)
   \<and> \<not> is_infected sample_constants (population ((Model_tick sample_constants ^^ 90) sample_model) ! 0)
   \<and> (90 :: int) < 0 + RECOVERY_PERIOD sample_constants + 1"
proof -
  note st = status_by_sickness [OF sample_sentinels_ok]
  have "time sample_model = 0"
    and "sickness (population sample_model ! 0) = INFECTED sample_constants"
    and "(90 :: int) < 0 + RECOVERY_PERIOD sample_constants + 1"
    by (simp_all add: sample_fields sample_model_def sample_cell_def)
  moreover have "time ((Model_tick sample_constants ^^ 90) sample_model) = 90"
    by (simp add: ticks_time sample_model_def)
  moreover have "is_infected sample_constants (population ((Model_tick sample_constants ^^ 89) sample_model) ! 0)"
    and "is_immune sample_constants (population ((Model_tick sample_constants ^^ 90) sample_model) ! 0)"
    and "\<not> is_infected sample_constants (population ((Model_tick sample_constants ^^ 90) sample_model) ! 0)"
    by (simp_all add: st sample_model_history sample_fields)
  ultimately show ?thesis
    using sample_model_init by blast
qed

text \<open>
  C4. In a box with \<open>MIN_X \<le> MAX_X\<close> and \<open>MIN_Y \<le> MAX_Y\<close>, \<open>enforce_bounds\<close> sets a
  coordinate that is past a bound to that bound and negates the velocity component of
  that axis, each axis on its own, so that a cell past a corner is clamped and turned on
  both axes. \<open>Model.tick\<close> leaves a cell where \<open>Cell.tick\<close> and then \<open>enforce_bounds\<close>
  put it; a cell at \<open>MAX_X + eps\<close> with a positive x-velocity is at \<open>MAX_X\<close> after one
  tick, its x-velocity negated.
\<close>

theorem enforce_bounds_reflects:
  assumes "bounds_ok c"
  shows "x (location (enforce_bounds c cell)) =
           (if MAX_X c < x (location cell) then MAX_X c
            else if x (location cell) < MIN_X c then MIN_X c else x (location cell))
       \<and> x (direction (enforce_bounds c cell)) =
           (if MAX_X c < x (location cell) \<or> x (location cell) < MIN_X c
            then - x (direction cell) else x (direction cell))
       \<and> y (location (enforce_bounds c cell)) =
           (if MAX_Y c < y (location cell) then MAX_Y c
            else if y (location cell) < MIN_Y c then MIN_Y c else y (location cell))
       \<and> y (direction (enforce_bounds c cell)) =
           (if MAX_Y c < y (location cell) \<or> y (location cell) < MIN_Y c
            then - y (direction cell) else y (direction cell))
       \<and> sickness (enforce_bounds c cell) = sickness cell
       \<and> (i < length (population m) \<longrightarrow>
            location (population (Model_tick c m) ! i)
              = location (enforce_bounds c (Cell_tick c (population m ! i)))
            \<and> direction (population (Model_tick c m) ! i)
              = direction (enforce_bounds c (Cell_tick c (population m ! i))))
       \<and> (i < length (population m) \<and> 0 < eps \<and> x (location (population m ! i)) = MAX_X c + eps
            \<and> 0 < x (direction (population m ! i)) \<longrightarrow>
            x (location (population (Model_tick c m) ! i)) = MAX_X c
            \<and> x (direction (population (Model_tick c m) ! i)) = - x (direction (population m ! i))
            \<and> x (direction (population (Model_tick c m) ! i)) < 0)"
proof -
  note eb = enforce_bounds_place [OF assms]
  have "x (location (population (Model_tick c m) ! i)) = MAX_X c
        \<and> x (direction (population (Model_tick c m) ! i)) = - x (direction (population m ! i))
        \<and> x (direction (population (Model_tick c m) ! i)) < 0"
    if "i < length (population m) \<and> 0 < eps \<and> x (location (population m ! i)) = MAX_X c + eps
        \<and> 0 < x (direction (population m ! i))"
    using that by (simp add: Model_tick_place eb Cell_tick_place Point_add_def)
  then show ?thesis
    using eb by (simp add: enforce_bounds_sickness Model_tick_place)
qed

theorem enforce_bounds_reflects_witness:
  "bounds_ok sample_constants
   \<and> enforce_bounds sample_constants
        \<lparr>location = \<lparr>x = 205, y = - 203\<rparr>, direction = \<lparr>x = 3, y = - 4\<rparr>, sickness = 1\<rparr>
      = \<lparr>location = \<lparr>x = 200, y = - 200\<rparr>, direction = \<lparr>x = - 3, y = 4\<rparr>, sickness = 1\<rparr>
   \<and> x (location (population (Model_tick sample_constants
          \<lparr>population = [\<lparr>location = \<lparr>x = 200 + 1 / 2, y = 0\<rparr>, direction = \<lparr>x = 3, y = 0\<rparr>, sickness = 0\<rparr>],
           time = 0\<rparr>) ! 0)) = 200
   \<and> x (direction (population (Model_tick sample_constants
          \<lparr>population = [\<lparr>location = \<lparr>x = 200 + 1 / 2, y = 0\<rparr>, direction = \<lparr>x = 3, y = 0\<rparr>, sickness = 0\<rparr>],
           time = 0\<rparr>) ! 0)) = - 3"
proof -
  let ?cell = "\<lparr>location = \<lparr>x = 205, y = - 203\<rparr>, direction = \<lparr>x = 3, y = - 4\<rparr>, sickness = 1\<rparr>"
  let ?m = "\<lparr>population = [\<lparr>location = \<lparr>x = 200 + 1 / 2, y = 0\<rparr>, direction = \<lparr>x = 3, y = 0\<rparr>, sickness = 0\<rparr>],
           time = 0\<rparr>"
  have b: "bounds_ok sample_constants"
    by (simp add: bounds_ok_def sample_fields)
  note w = enforce_bounds_reflects [OF b, where cell = ?cell and i = 0 and eps = "1 / 2" and m = ?m]
  have "x (location (enforce_bounds sample_constants ?cell)) = 200"
    "x (direction (enforce_bounds sample_constants ?cell)) = - 3"
    "y (location (enforce_bounds sample_constants ?cell)) = - 200"
    "y (direction (enforce_bounds sample_constants ?cell)) = 4"
    "sickness (enforce_bounds sample_constants ?cell) = 1"
    using w by (simp_all add: sample_fields)
  then have 1: "enforce_bounds sample_constants ?cell
      = \<lparr>location = \<lparr>x = 200, y = - 200\<rparr>, direction = \<lparr>x = - 3, y = 4\<rparr>, sickness = 1\<rparr>"
    by (intro Cell.equality Point.equality) simp_all
  have "x (location (population (Model_tick sample_constants ?m) ! 0)) = MAX_X sample_constants
        \<and> x (direction (population (Model_tick sample_constants ?m) ! 0)) = - x (direction (population ?m ! 0))
        \<and> x (direction (population (Model_tick sample_constants ?m) ! 0)) < 0"
    by (rule w [THEN conjunct2, THEN conjunct2, THEN conjunct2, THEN conjunct2, THEN conjunct2,
          THEN conjunct2, THEN mp]) (simp add: sample_fields)
  then have 2: "x (location (population (Model_tick sample_constants ?m) ! 0)) = 200"
    "x (direction (population (Model_tick sample_constants ?m) ! 0)) = - 3"
    by (simp_all add: sample_fields)
  from b 1 2 show ?thesis by (intro conjI)
qed

text \<open>
  C5. \<open>check_contacts\<close> is one call of \<open>contact_with\<close> for each pair \<open>(i, j)\<close>, \<open>i < j\<close>,
  whose cells are closer than \<open>CELL_RADIUS\<close>, in the order of the loops, and nothing for
  the other pairs; \<open>pairs n\<close> lists every pair \<open>i < j < n\<close> once. Two cells at a distance
  of \<open>CELL_RADIUS\<close> or more are left as they are, whatever their statuses, and so is a
  cell that far from every other cell.
\<close>

theorem check_contacts_scan:
  "check_contacts c pop = fold (contact_pair c) (filter (in_range c pop) (pairs (length pop))) pop
   \<and> set (pairs n) = {(i, j). i < j \<and> j < n}
   \<and> distinct (pairs n)
   \<and> (in_range c pop (i, j)
        \<longleftrightarrow> Point_distance (location (pop ! i)) (location (pop ! j)) < CELL_RADIUS c)
   \<and> (CELL_RADIUS c \<le> Point_distance (location a) (location b)
        \<longrightarrow> check_contacts c [a, b] = [a, b])
   \<and> (i < length pop
        \<and> (\<forall>k < length pop. k \<noteq> i \<longrightarrow>
              CELL_RADIUS c \<le> Point_distance (location (pop ! i)) (location (pop ! k)))
        \<longrightarrow> check_contacts c pop ! i = pop ! i)"
proof (intro conjI impI)
  show "check_contacts c pop = fold (contact_pair c) (filter (in_range c pop) (pairs (length pop))) pop"
    by (rule check_contacts_scan_eq)
  show "set (pairs n) = {(i, j). i < j \<and> j < n}"
    by (rule set_pairs)
  show "distinct (pairs n)"
    by (rule distinct_pairs)
  show "in_range c pop (i, j)
        \<longleftrightarrow> Point_distance (location (pop ! i)) (location (pop ! j)) < CELL_RADIUS c"
    by (simp add: in_range_def)
  show "check_contacts c [a, b] = [a, b]"
    if "CELL_RADIUS c \<le> Point_distance (location a) (location b)"
    using that by (rule far_pair_unchanged)
  show "check_contacts c pop ! i = pop ! i"
    if "i < length pop
        \<and> (\<forall>k < length pop. k \<noteq> i \<longrightarrow>
              CELL_RADIUS c \<le> Point_distance (location (pop ! i)) (location (pop ! k)))"
    using that by (intro isolated_unchanged) simp_all
qed

theorem check_contacts_scan_witness:
  "CELL_RADIUS sample_constants
     \<le> Point_distance (location (sample_cell 0 1)) (location (sample_cell 15 0))
   \<and> check_contacts sample_constants [sample_cell 0 1, sample_cell 15 0]
       = [sample_cell 0 1, sample_cell 15 0]
   \<and> CELL_RADIUS sample_constants
       \<le> Point_distance (location ([sample_cell 0 1, sample_cell 15 0] ! 1))
            (location ([sample_cell 0 1, sample_cell 15 0] ! 0))
   \<and> check_contacts sample_constants [sample_cell 0 1, sample_cell 15 0] ! 1 = sample_cell 15 0"
proof -
  let ?pop = "[sample_cell 0 1, sample_cell 15 0]"
  note w = check_contacts_scan [where c = sample_constants and pop = ?pop and i = 1
      and a = "sample_cell 0 1" and b = "sample_cell 15 0"]
  have far: "CELL_RADIUS sample_constants
     \<le> Point_distance (location (sample_cell 0 1)) (location (sample_cell 15 0))"
    by (simp add: Point_distance_ge_iff sample_fields sample_cell_def)
  have alone: "\<forall>k < length ?pop. k \<noteq> 1 \<longrightarrow>
         CELL_RADIUS sample_constants
           \<le> Point_distance (location (?pop ! 1)) (location (?pop ! k))"
    by (simp add: less_Suc_eq Point_distance_ge_iff sample_fields sample_cell_def)
  have 1: "check_contacts sample_constants ?pop = ?pop"
    using w [THEN conjunct2, THEN conjunct2, THEN conjunct2, THEN conjunct2, THEN conjunct1,
        THEN mp, OF far] .
  have "check_contacts sample_constants ?pop ! 1 = ?pop ! 1"
    by (rule w [THEN conjunct2, THEN conjunct2, THEN conjunct2, THEN conjunct2, THEN conjunct2,
          THEN mp]) (use alone in simp)
  then have 2: "check_contacts sample_constants ?pop ! 1 = sample_cell 15 0"
    by simp
  have 3: "CELL_RADIUS sample_constants
       \<le> Point_distance (location (?pop ! 1)) (location (?pop ! 0))"
    by (simp add: Point_distance_ge_iff sample_fields sample_cell_def)
  from far 1 3 2 show ?thesis by (intro conjI)
qed

text \<open>
  C6. \<open>Model.tick\<close> adds 1 to the time, and its population is the contact scan of the
  cells as \<open>Cell.tick\<close> and then \<open>enforce_bounds\<close> left them: the distances that the scan
  compares are those of the moved and reflected cells, and the scan moves no cell.
\<close>

theorem Model_tick_order:
  "time (Model_tick c m) = time m + 1
   \<and> length (population (Model_tick c m)) = length (population m)
   \<and> population (Model_tick c m) =
       fold (contact_pair c)
         (filter (in_range c (map (\<lambda>cell. enforce_bounds c (Cell_tick c cell)) (population m)))
            (pairs (length (population m))))
         (map (\<lambda>cell. enforce_bounds c (Cell_tick c cell)) (population m))
   \<and> map location (population (Model_tick c m)) =
       map (\<lambda>cell. location (enforce_bounds c (Cell_tick c cell))) (population m)"
proof (intro conjI)
  show "time (Model_tick c m) = time m + 1"
    by (rule Model_tick_time)
  show "length (population (Model_tick c m)) = length (population m)"
    by (rule Model_tick_length)
  show "population (Model_tick c m) =
       fold (contact_pair c)
         (filter (in_range c (map (\<lambda>cell. enforce_bounds c (Cell_tick c cell)) (population m)))
            (pairs (length (population m))))
         (map (\<lambda>cell. enforce_bounds c (Cell_tick c cell)) (population m))"
    by (simp add: Model_tick_population check_contacts_scan_eq)
  show "map location (population (Model_tick c m)) =
       map (\<lambda>cell. location (enforce_bounds c (Cell_tick c cell))) (population m)"
    by (rule nth_equalityI) (simp_all add: Model_tick_length Model_tick_place)
qed

theorem Model_tick_order_witness:
  "\<not> in_range sample_constants
        [\<lparr>location = \<lparr>x = - 30, y = 0\<rparr>, direction = \<lparr>x = 20, y = 0\<rparr>, sickness = 1\<rparr>,
         \<lparr>location = \<lparr>x = 0, y = 0\<rparr>, direction = \<lparr>x = 0, y = 0\<rparr>, sickness = 0\<rparr>] (0, 1)
   \<and> Model_tick sample_constants
        \<lparr>population =
           [\<lparr>location = \<lparr>x = - 30, y = 0\<rparr>, direction = \<lparr>x = 20, y = 0\<rparr>, sickness = 1\<rparr>,
            \<lparr>location = \<lparr>x = 0, y = 0\<rparr>, direction = \<lparr>x = 0, y = 0\<rparr>, sickness = 0\<rparr>],
         time = 7\<rparr>
     = \<lparr>population =
           [\<lparr>location = \<lparr>x = - 10, y = 0\<rparr>, direction = \<lparr>x = 20, y = 0\<rparr>, sickness = 2\<rparr>,
            \<lparr>location = \<lparr>x = 0, y = 0\<rparr>, direction = \<lparr>x = 0, y = 0\<rparr>, sickness = 1\<rparr>],
         time = 8\<rparr>"
proof -
  let ?a = "\<lparr>location = \<lparr>x = - 30, y = 0\<rparr>, direction = \<lparr>x = 20, y = 0\<rparr>, sickness = 1\<rparr>"
  let ?b = "\<lparr>location = \<lparr>x = 0, y = 0\<rparr>, direction = \<lparr>x = 0, y = 0\<rparr>, sickness = 0\<rparr>"
  let ?a' = "\<lparr>location = \<lparr>x = - 10, y = 0\<rparr>, direction = \<lparr>x = 20, y = 0\<rparr>, sickness = 2\<rparr>"
  let ?m = "\<lparr>population = [?a, ?b], time = 7\<rparr>"
  have before: "\<not> in_range sample_constants [?a, ?b] (0, 1)"
    by (simp add: in_range_def Point_distance_less_iff sample_fields)
  have a: "enforce_bounds sample_constants (Cell_tick sample_constants ?a) = ?a'"
    by (simp add: enforce_bounds_def Cell_tick_def Let_def sample_fields Point_add_def
          is_infected_def immunize_def)
  have b: "enforce_bounds sample_constants (Cell_tick sample_constants ?b) = ?b"
    by (simp add: enforce_bounds_def Cell_tick_def Let_def sample_fields Point_add_def
          is_infected_def immunize_def)
  have after: "in_range sample_constants [?a', ?b] (0, Suc 0)"
    by (simp add: in_range_def Point_distance_less_iff sample_fields)
  have touch: "contact_with sample_constants ?a' ?b = (?a', ?b\<lparr>sickness := 1\<rparr>)"
    by (simp add: contact_with_def is_infected_def is_vulnerable_def contract_disease_def
          sample_fields)
  note w = Model_tick_order [of sample_constants ?m]
  have t: "time (Model_tick sample_constants ?m) = 8"
    using w [THEN conjunct1] by simp
  have p: "population (Model_tick sample_constants ?m) = [?a', ?b\<lparr>sickness := 1\<rparr>]"
    using w [THEN conjunct2, THEN conjunct2, THEN conjunct1]
    by (simp add: a b pairs_2 after contact_pair_def touch)
  have "Model_tick sample_constants ?m = \<lparr>population = [?a', ?b\<lparr>sickness := 1\<rparr>], time = 8\<rparr>"
    using t p by (intro Model.equality) simp_all
  with before show ?thesis by simp
qed

text \<open>
  C10. An infection made by one pair of the scan counts for the later pairs of the same
  scan. In \<open>sample_model\<close> the only infected cell is the first; the third cell is out of
  its range and in range of the second; after one tick the second and the third are both
  infected. In \<open>close_model\<close>, where the three cells are in range of each other and one
  is infected, one tick infects the two others.
\<close>

theorem scan_cascade:
  "Model_init sample_constants 3 0 1 0 sample_draws = Inr sample_model
   \<and> map sickness (population sample_model) = [1, 0, 0]
   \<and> in_range sample_constants (population sample_model) (0, 1)
   \<and> \<not> in_range sample_constants (population sample_model) (0, 2)
   \<and> in_range sample_constants (population sample_model) (1, 2)
   \<and> map location (population (Model_tick sample_constants sample_model))
       = map location (population sample_model)
   \<and> map sickness (population (Model_tick sample_constants sample_model)) = [2, 1, 1]
   \<and> Model_init sample_constants 3 0 1 0 close_draws = Inr close_model
   \<and> map sickness (population close_model) = [1, 0, 0]
   \<and> in_range sample_constants (population close_model) (0, 1)
   \<and> in_range sample_constants (population close_model) (0, 2)
   \<and> in_range sample_constants (population close_model) (1, 2)
   \<and> map sickness (population (Model_tick sample_constants close_model)) = [2, 1, 1]"
proof -
  have one: "(1::nat) = Suc 0" by simp
  have "map sickness (population sample_model) = [1, 0, 0]"
    "map sickness (population close_model) = [1, 0, 0]"
    by (simp_all add: sample_model_def close_model_def sample_cell_def)
  moreover have "in_range sample_constants (population sample_model) (0, 1)"
    "\<not> in_range sample_constants (population sample_model) (0, 2)"
    "in_range sample_constants (population sample_model) (1, 2)"
    "in_range sample_constants (population close_model) (0, 1)"
    "in_range sample_constants (population close_model) (0, 2)"
    "in_range sample_constants (population close_model) (1, 2)"
    unfolding one by (simp_all add: sample_model_def close_model_def sample_cell_in_range)
  moreover have "map location (population (Model_tick sample_constants sample_model))
       = map location (population sample_model)"
    "map sickness (population (Model_tick sample_constants sample_model)) = [2, 1, 1]"
    "map sickness (population (Model_tick sample_constants close_model)) = [2, 1, 1]"
    unfolding sample_model_tick close_model_tick
    by (simp_all add: sample_model_def sample_cell_def)
  ultimately show ?thesis
    using sample_model_init close_model_init by (intro conjI)
qed

text \<open>
  C9. When every draw is in \<open>[0, 1)\<close> and the box holds the square that
  \<open>random_location\<close> draws from (\<open>spawn_area_ok\<close>), every cell of a model that the
  constructor returns lies in the box; cell \<open>i\<close> is placed by the draws \<open>3i\<close> and \<open>3i + 1\<close>
  and its velocity is \<open>(speed * cos angle, speed * sin angle)\<close> for the angle
  \<open>2 * pi * s (3i + 2)\<close>, which is in \<open>[0, 2 * pi)\<close>.
\<close>

theorem random_initialization:
  assumes "spawn_area_ok c"
    and "\<forall>n. 0 \<le> s n \<and> s n < 1"
    and "Model_init c cells speed num_infected num_immune s = Inr m"
    and "i < length (population m)"
  shows "MIN_X c \<le> x (location (population m ! i)) \<and> x (location (population m ! i)) \<le> MAX_X c
       \<and> MIN_Y c \<le> y (location (population m ! i)) \<and> y (location (population m ! i)) \<le> MAX_Y c
       \<and> location (population m ! i)
           = \<lparr>x = s (3 * i) * BOUNDS_WIDTH c - MAX_X c, y = s (3 * i + 1) * BOUNDS_WIDTH c - MAX_Y c\<rparr>
       \<and> 0 \<le> 2 * pi * s (3 * i + 2) \<and> 2 * pi * s (3 * i + 2) < 2 * pi
       \<and> direction (population m ! i)
           = \<lparr>x = speed * cos (2 * pi * s (3 * i + 2)), y = speed * sin (2 * pi * s (3 * i + 2))\<rparr>"
proof -
  note place = Model_init_place [OF assms(3)]
  have i: "i < nat cells"
    using assms(4) place(1) by simp
  have loc: "location (population m ! i)
           = \<lparr>x = s (3 * i) * BOUNDS_WIDTH c - MAX_X c, y = s (3 * i + 1) * BOUNDS_WIDTH c - MAX_Y c\<rparr>"
    using place(2) [OF i] by (simp add: drawn_cell_def Cell_init_def)
  have dir: "direction (population m ! i)
           = \<lparr>x = speed * cos (2 * pi * s (3 * i + 2)), y = speed * sin (2 * pi * s (3 * i + 2))\<rparr>"
    using place(3) [OF i] by (simp add: drawn_cell_def Cell_init_def mult.commute)
  have r: "0 \<le> s n" "s n < 1" for n
    using assms(2) by simp_all
  have area: "0 \<le> BOUNDS_WIDTH c" "BOUNDS_WIDTH c \<le> 2 * MAX_X c" "BOUNDS_WIDTH c \<le> 2 * MAX_Y c"
    "MIN_X c \<le> - MAX_X c" "MIN_Y c \<le> - MAX_Y c"
    using assms(1) by (simp_all add: spawn_area_ok_def)
  have bx: "MIN_X c \<le> s (3 * i) * BOUNDS_WIDTH c - MAX_X c"
    "s (3 * i) * BOUNDS_WIDTH c - MAX_X c \<le> MAX_X c"
    by (rule draw_above [OF r(1) area(1) area(4)], rule draw_below [OF r(1) r(2) area(1) area(2)])
  have "MIN_Y c \<le> s (3 * i + 1) * BOUNDS_WIDTH c - MAX_Y c"
    "s (3 * i + 1) * BOUNDS_WIDTH c - MAX_Y c \<le> MAX_Y c"
    by (rule draw_above [OF r(1) area(1) area(5)], rule draw_below [OF r(1) r(2) area(1) area(3)])
  moreover have "0 \<le> 2 * pi * s (3 * i + 2)" "2 * pi * s (3 * i + 2) < 2 * pi"
    using r [of "3 * i + 2"] by simp_all
  ultimately show ?thesis
    using bx loc dir by simp
qed

theorem random_initialization_witness:
  "spawn_area_ok sample_constants
   \<and> Model_init sample_constants 3 2 1 0 sample_draws =
        Inr \<lparr>population =
               [\<lparr>location = \<lparr>x = - 200, y = - 200\<rparr>, direction = \<lparr>x = 2, y = 0\<rparr>, sickness = 1\<rparr>,
                \<lparr>location = \<lparr>x = - 190, y = - 200\<rparr>, direction = \<lparr>x = 2, y = 0\<rparr>, sickness = 0\<rparr>,
                \<lparr>location = \<lparr>x = - 180, y = - 200\<rparr>, direction = \<lparr>x = 2, y = 0\<rparr>, sickness = 0\<rparr>],
             time = 0\<rparr>
   \<and> MIN_X sample_constants \<le> - 190 \<and> (- 190 :: real) \<le> MAX_X sample_constants
   \<and> MIN_Y sample_constants \<le> - 200 \<and> (- 200 :: real) \<le> MAX_Y sample_constants
   \<and> sample_draws (3 * 1 + 2) = 0
   \<and> \<lparr>x = 2 * cos (2 * pi * sample_draws (3 * 1 + 2)), y = 2 * sin (2 * pi * sample_draws (3 * 1 + 2))\<rparr>
       = \<lparr>x = 2, y = 0\<rparr>"
proof -
  let ?m = "\<lparr>population =
               [\<lparr>location = \<lparr>x = - 200, y = - 200\<rparr>, direction = \<lparr>x = 2, y = 0\<rparr>, sickness = 1\<rparr>,
                \<lparr>location = \<lparr>x = - 190, y = - 200\<rparr>, direction = \<lparr>x = 2, y = 0\<rparr>, sickness = 0\<rparr>,
                \<lparr>location = \<lparr>x = - 180, y = - 200\<rparr>, direction = \<lparr>x = 2, y = 0\<rparr>, sickness = 0\<rparr>],
             time = 0\<rparr>"
  have area: "spawn_area_ok sample_constants"
    by (simp add: spawn_area_ok_def sample_fields)
  have draws: "\<forall>n. 0 \<le> sample_draws n \<and> sample_draws n < 1"
    by (simp add: sample_draws_def)
  have init: "Model_init sample_constants 3 2 1 0 sample_draws = Inr ?m"
    by (simp add: Model_init_def Let_def sample_constants_def sample_draws_def
        random_location_def random_direction_def py_random_def Cell_init_def
        contract_disease_def numeral_eq_Suc)
  have i: "1 < length (population ?m)"
    by simp
  have d: "sample_draws (3 * 1 + 2) = 0"
    by (simp add: sample_draws_def)
  from random_initialization [OF area draws init i]
  have "MIN_X sample_constants \<le> - 190 \<and> (- 190 :: real) \<le> MAX_X sample_constants
   \<and> MIN_Y sample_constants \<le> - 200 \<and> (- 200 :: real) \<le> MAX_Y sample_constants
   \<and> \<lparr>x = 2, y = 0\<rparr>
       = \<lparr>x = 2 * cos (2 * pi * sample_draws (3 * 1 + 2)), y = 2 * sin (2 * pi * sample_draws (3 * 1 + 2))\<rparr>"
    by simp
  with area init d show ?thesis by simp
qed

end
